theory Spec2Isabelle
  imports Complex_Main "HOL-Library.Log_Nat"
begin

section \<open>Options screener of trading\_bot.py\<close>

text \<open>
  A shallow embedding of \<^verbatim>\<open>OptionsScreener\<close> (src/trading\_bot.py). Python floats are
  modelled as exact rationals (no rounding, no NaN, no infinities), Python ints as
  \<open>int\<close>; the spread metrics are modelled a second time with every operation rounded
  to a double, where the exact value of a result matters. A raised exception is an
  \<open>Inl\<close> result. The data source (yfinance) is a parameter: what it answers to the
  n-th request for a symbol. So is the order in which the sort of pandas leaves rows of
  equal strike.
\<close>

subsection \<open>Configuration\<close>

definition MIN_DTE :: int where "MIN_DTE = 1"
definition MAX_DTE :: int where "MAX_DTE = 7"
definition MIN_OTM_PERCENT :: rat where "MIN_OTM_PERCENT = 5"
definition MAX_OTM_PERCENT :: rat where "MAX_OTM_PERCENT = 10"
definition SPREAD_WIDTH :: rat where "SPREAD_WIDTH = 5"
definition MIN_RETURN_ON_RISK :: rat where "MIN_RETURN_ON_RISK = 20"
definition MIN_VOLUME :: rat where "MIN_VOLUME = 10"
definition MIN_OPEN_INTEREST :: rat where "MIN_OPEN_INTEREST = 50"

subsection \<open>Data\<close>

text \<open>A \<open>datetime\<close> is a count of microseconds on a fixed time line.\<close>

type_synonym datetime = int

definition day :: int where "day = 86400000000"

text \<open>One row of \<^verbatim>\<open>chain.puts\<close> as the data source returns it.\<close>

record put_row =
  strike :: rat
  bid :: rat
  ask :: rat
  volume :: int
  openInterest :: int

text \<open>A row of the frame \<^verbatim>\<open>get_options_chain\<close> returns: the three added columns.\<close>

record chain_row = put_row +
  expiry :: datetime
  expiry_str :: string
  dte :: int

datatype error = ZeroDivisionError

datatype 'a reply = Raises | Returns 'a

text \<open>
  One entry of \<^verbatim>\<open>ticker.options\<close>: the string, what \<^verbatim>\<open>datetime.strptime\<close> makes of
  it (\<open>None\<close>: it raises ValueError), and what \<^verbatim>\<open>ticker.option_chain\<close> answers for it.
\<close>

record expiration =
  exp_str :: string
  strptime :: "datetime option"
  option_chain :: "put_row list reply"

text \<open>
  The answer to one call of \<^verbatim>\<open>get_options_chain\<close>: \<^verbatim>\<open>ticker.options\<close> and the
  reading of \<^verbatim>\<open>datetime.now()\<close>.
\<close>

record options_reply =
  expirations :: "expiration list reply"
  current_date :: datetime

text \<open>
  What a scan does not control. The data source: the Close column of
  \<^verbatim>\<open>ticker.history(period='1d')\<close> and the options data, at the n-th request for a
  symbol. And \<open>ties\<close>: \<^verbatim>\<open>DataFrame.sort_values\<close> sorts with quicksort, which is not
  stable, so the order of rows of equal strike after the sort is its own; \<open>ties xs i\<close>
  is the rank it gives the row at position \<open>i\<close> of the frame \<open>xs\<close> among the rows of
  the same strike.
\<close>

record market =
  history :: "string \<Rightarrow> nat \<Rightarrow> rat list reply"
  options :: "string \<Rightarrow> nat \<Rightarrow> options_reply"
  ties :: "chain_row list \<Rightarrow> nat \<Rightarrow> nat"

text \<open>The state of a scan: how many requests of each kind each symbol has had.\<close>

record session =
  history_calls :: "string \<Rightarrow> nat"
  options_calls :: "string \<Rightarrow> nat"

record csp_candidate =
  csp_symbol :: string
  csp_strategy :: string
  csp_current_price :: rat
  csp_strike :: rat
  csp_short_strike :: rat
  csp_long_strike :: "rat option"
  csp_premium :: rat
  csp_bid :: rat
  csp_ask :: rat
  csp_credit :: rat
  csp_max_risk :: rat
  csp_otm_percent :: rat
  csp_return_on_risk :: rat
  csp_annualized_return :: rat
  csp_expiry :: datetime
  csp_expiry_str :: string
  csp_dte :: int
  csp_volume :: int
  csp_open_interest :: int

record bps_candidate =
  bps_symbol :: string
  bps_strategy :: string
  bps_current_price :: rat
  bps_short_strike :: rat
  bps_long_strike :: rat
  bps_short_premium :: rat
  bps_long_premium :: rat
  bps_credit :: rat
  bps_spread_width :: rat
  bps_max_risk :: rat
  bps_otm_percent :: rat
  bps_return_on_risk :: rat
  bps_annualized_return :: rat
  bps_expiry :: datetime
  bps_expiry_str :: string
  bps_dte :: int
  bps_short_volume :: int
  bps_long_volume :: int

record results =
  CSP :: "csp_candidate list"
  BPS :: "bps_candidate list"

subsection \<open>Python operations\<close>

text \<open>\<^verbatim>\<open>a / b\<close>: raises ZeroDivisionError on a zero divisor.\<close>

definition truediv :: "rat \<Rightarrow> rat \<Rightarrow> error + rat" where
  "truediv a b = (if b = 0 then Inl ZeroDivisionError else Inr (a / b))"

text \<open>
  A \<^verbatim>\<open>for\<close> loop whose body appends to \<^verbatim>\<open>candidates\<close> or raises: the first raise
  ends the loop.
\<close>

fun for_each :: "('a \<Rightarrow> error + 'b list) \<Rightarrow> 'a list \<Rightarrow> error + 'b list" where
  "for_each body [] = Inr []"
| "for_each body (x # xs) =
     (case body x of
        Inl e \<Rightarrow> Inl e
      | Inr ys \<Rightarrow> (case for_each body xs of Inl e \<Rightarrow> Inl e | Inr zs \<Rightarrow> Inr (ys @ zs)))"

text \<open>\<^verbatim>\<open>Series.unique()\<close>: the distinct values in order of first appearance.\<close>

fun unique :: "'a list \<Rightarrow> 'a list" where
  "unique [] = []"
| "unique (x # xs) = x # unique (filter (\<lambda>y. y \<noteq> x) xs)"

text \<open>
  \<^verbatim>\<open>list.sort(key=..., reverse=True)\<close>: descending by the key and stable, elements of
  equal key stay in their order before the sort.
\<close>

definition sort_descending :: "('a \<Rightarrow> rat) \<Rightarrow> 'a list \<Rightarrow> 'a list" where
  "sort_descending f xs = sort_key (\<lambda>x. - f x) xs"

text \<open>
  \<^verbatim>\<open>sort_values('strike', ascending=False)\<close>: descending by the strike, and not
  stable. The rows are first put in the order of their ranks and then sorted by strike
  with a stable sort, so rows of equal strike come in the order of their ranks.
\<close>

definition sort_values :: "(chain_row list \<Rightarrow> nat \<Rightarrow> nat) \<Rightarrow> chain_row list \<Rightarrow> chain_row list" where
  "sort_values rank xs =
     map snd (sort_key (\<lambda>p. - strike (snd p))
                (sort_key (\<lambda>p. rank xs (fst p)) (enumerate 0 xs)))"

text \<open>
  Doubles. \<open>binary64 x\<close> is the double nearest to \<open>x\<close>, ties to the even mantissa,
  for \<open>x\<close> in the range of the normal doubles (no overflow, no subnormals): what a
  decimal literal and the result of \<^verbatim>\<open>+\<close>, \<^verbatim>\<open>-\<close>, \<^verbatim>\<open>*\<close> and \<^verbatim>\<open>/\<close> on doubles
  are. \<open>exponent x\<close> is the integer part of the binary logarithm of \<open>\<bar>x\<bar>\<close>.
\<close>

definition pow2 :: "int \<Rightarrow> rat" where
  "pow2 e = (if 0 \<le> e then 2 ^ nat e else 1 / 2 ^ nat (- e))"

definition exponent :: "rat \<Rightarrow> int" where
  "exponent x =
     (case quotient_of \<bar>x\<bar> of
        (p, q) \<Rightarrow> (let d = bitlen p - bitlen q in if pow2 d \<le> \<bar>x\<bar> then d else d - 1))"

definition round_half_even :: "rat \<Rightarrow> int" where
  "round_half_even q =
     (let f = \<lfloor>q\<rfloor>; r = q - of_int f
      in if r < 1/2 then f else if r > 1/2 then f + 1 else if even f then f else f + 1)"

definition binary64 :: "rat \<Rightarrow> rat" where
  "binary64 x =
     (if x = 0 then 0
      else (let ulp = pow2 (exponent x - 52) in of_int (round_half_even (x / ulp)) * ulp))"

text \<open>\<^verbatim>\<open>a / b\<close> with the quotient rounded by \<open>rnd\<close>.\<close>

definition truediv_rounded :: "(rat \<Rightarrow> rat) \<Rightarrow> rat \<Rightarrow> rat \<Rightarrow> error + rat" where
  "truediv_rounded rnd a b = (if b = 0 then Inl ZeroDivisionError else Inr (rnd (a / b)))"

subsection \<open>Fetching\<close>

definition get_current_price :: "market \<Rightarrow> session \<Rightarrow> string \<Rightarrow> rat option \<times> session" where
  "get_current_price m st symbol =
     (let n = history_calls st symbol;
          st' = st\<lparr>history_calls := (history_calls st)(symbol := Suc n)\<rparr>
      in case history m symbol n of
           Raises \<Rightarrow> (None, st')
         | Returns closes \<Rightarrow> (if closes \<noteq> [] then Some (last closes) else None, st'))"

definition tag_row :: "datetime \<Rightarrow> string \<Rightarrow> int \<Rightarrow> put_row \<Rightarrow> chain_row" where
  "tag_row exp_date s d p =
     \<lparr>strike = strike p, bid = bid p, ask = ask p, volume = volume p,
      openInterest = openInterest p, expiry = exp_date, expiry_str = s, dte = d\<rparr>"

text \<open>
  The loop over \<^verbatim>\<open>expirations\<close>; \<open>None\<close> when \<^verbatim>\<open>strptime\<close> or \<^verbatim>\<open>option_chain\<close>
  raises (the \<^verbatim>\<open>except\<close> of \<^verbatim>\<open>get_options_chain\<close> then returns None).
\<close>

fun all_puts :: "datetime \<Rightarrow> expiration list \<Rightarrow> chain_row list list option" where
  "all_puts now [] = Some []"
| "all_puts now (e # es) =
     (case strptime e of
        None \<Rightarrow> None
      | Some exp_date \<Rightarrow>
          (let d = (exp_date - now) div day in
           if MIN_DTE \<le> d \<and> d \<le> MAX_DTE then
             (case option_chain e of
                Raises \<Rightarrow> None
              | Returns puts \<Rightarrow>
                  (case all_puts now es of
                     None \<Rightarrow> None
                   | Some rest \<Rightarrow> Some (map (tag_row exp_date (exp_str e) d) puts # rest)))
           else all_puts now es))"

definition get_options_chain ::
  "market \<Rightarrow> session \<Rightarrow> string \<Rightarrow> chain_row list option \<times> session" where
  "get_options_chain m st symbol =
     (let n = options_calls st symbol;
          st' = st\<lparr>options_calls := (options_calls st)(symbol := Suc n)\<rparr>;
          r = options m symbol n
      in case expirations r of
           Raises \<Rightarrow> (None, st')
         | Returns exps \<Rightarrow>
             if exps = [] then (None, st')
             else (case all_puts (current_date r) exps of
                     None \<Rightarrow> (None, st')
                   | Some ps \<Rightarrow> if ps \<noteq> [] then (Some (concat ps), st') else (None, st')))"

subsection \<open>Cash-secured puts\<close>

text \<open>The body of the loop over the rows of the filtered chain.\<close>

definition csp_row :: "string \<Rightarrow> rat \<Rightarrow> chain_row \<Rightarrow> error + csp_candidate list" where
  "csp_row symbol current_price row =
     (let premium = (bid row + ask row) / 2
      in case truediv (current_price - strike row) current_price of
           Inl e \<Rightarrow> Inl e
         | Inr otm \<Rightarrow>
             (let otm_percent = otm * 100
              in case truediv premium (strike row) of
                   Inl e \<Rightarrow> Inl e
                 | Inr q \<Rightarrow>
                     (let return_on_risk = q * 100;
                          max_risk = strike row * 100
                      in if return_on_risk \<ge> MIN_RETURN_ON_RISK then
                           (case truediv 365 (of_int (dte row)) of
                              Inl e \<Rightarrow> Inl e
                            | Inr y \<Rightarrow>
                                Inr [\<lparr>csp_symbol = symbol, csp_strategy = ''CSP'',
                                      csp_current_price = current_price,
                                      csp_strike = strike row,
                                      csp_short_strike = strike row, csp_long_strike = None,
                                      csp_premium = premium, csp_bid = bid row,
                                      csp_ask = ask row, csp_credit = premium,
                                      csp_max_risk = max_risk,
                                      csp_otm_percent = otm_percent,
                                      csp_return_on_risk = return_on_risk,
                                      csp_annualized_return = return_on_risk * y,
                                      csp_expiry = expiry row,
                                      csp_expiry_str = expiry_str row,
                                      csp_dte = dte row, csp_volume = volume row,
                                      csp_open_interest = openInterest row\<rparr>])
                         else Inr [])))"

text \<open>\<^verbatim>\<open>screen_csp\<close> after both fetches: the filter and the loop.\<close>

definition csp_screen_chain ::
  "string \<Rightarrow> rat \<Rightarrow> chain_row list \<Rightarrow> error + csp_candidate list" where
  "csp_screen_chain symbol current_price chain =
     (let min_strike = current_price * (1 - MAX_OTM_PERCENT / 100);
          max_strike = current_price * (1 - MIN_OTM_PERCENT / 100);
          chain' = filter (\<lambda>r. strike r \<ge> min_strike \<and> strike r \<le> max_strike \<and>
                               of_int (volume r) \<ge> MIN_VOLUME \<and>
                               of_int (openInterest r) \<ge> MIN_OPEN_INTEREST \<and>
                               bid r > 0 \<and> ask r > 0) chain
      in for_each (csp_row symbol current_price) chain')"

definition screen_csp ::
  "market \<Rightarrow> session \<Rightarrow> string \<Rightarrow> (error + csp_candidate list) \<times> session" where
  "screen_csp m st symbol =
     (case get_current_price m st symbol of
        (None, st1) \<Rightarrow> (Inr [], st1)
      | (Some current_price, st1) \<Rightarrow>
          if current_price = 0 then (Inr [], st1)
          else (case get_options_chain m st1 symbol of
                  (None, st2) \<Rightarrow> (Inr [], st2)
                | (Some chain, st2) \<Rightarrow>
                    if length chain = 0 then (Inr [], st2)
                    else (csp_screen_chain symbol current_price chain, st2)))"

subsection \<open>Bull put spreads\<close>

text \<open>The spread metrics of a short and a long row.\<close>

definition premium_of :: "chain_row \<Rightarrow> rat" where
  "premium_of row = (bid row + ask row) / 2"

definition net_credit_of :: "chain_row \<Rightarrow> chain_row \<Rightarrow> rat" where
  "net_credit_of short_row long_row =
     (bid short_row + ask short_row) / 2 - (bid long_row + ask long_row) / 2"

definition actual_width_of :: "chain_row \<Rightarrow> chain_row \<Rightarrow> rat" where
  "actual_width_of short_row long_row = strike short_row - strike long_row"

definition max_risk_of :: "chain_row \<Rightarrow> chain_row \<Rightarrow> rat" where
  "max_risk_of short_row long_row =
     (actual_width_of short_row long_row - net_credit_of short_row long_row) * 100"

text \<open>From "Calculate spread metrics" to the append, for a short row and its long row.\<close>

definition bps_pair ::
  "string \<Rightarrow> rat \<Rightarrow> chain_row \<Rightarrow> chain_row \<Rightarrow> error + bps_candidate list" where
  "bps_pair symbol current_price short_row long_row =
     (let net_credit = net_credit_of short_row long_row;
          actual_width = actual_width_of short_row long_row;
          max_risk = max_risk_of short_row long_row
      in if max_risk \<le> 0 \<or> net_credit \<le> 0 then Inr []
         else (case truediv net_credit actual_width of
                 Inl e \<Rightarrow> Inl e
               | Inr q \<Rightarrow>
                   (let return_on_risk = q * 100
                    in if return_on_risk \<ge> MIN_RETURN_ON_RISK then
                         (case truediv (current_price - strike short_row) current_price of
                            Inl e \<Rightarrow> Inl e
                          | Inr otm \<Rightarrow>
                              (let otm_percent = otm * 100
                               in case truediv 365 (of_int (dte short_row)) of
                                    Inl e \<Rightarrow> Inl e
                                  | Inr y \<Rightarrow>
                                      Inr [\<lparr>bps_symbol = symbol, bps_strategy = ''BPS'',
                                            bps_current_price = current_price,
                                            bps_short_strike = strike short_row,
                                            bps_long_strike = strike long_row,
                                            bps_short_premium = premium_of short_row,
                                            bps_long_premium = premium_of long_row,
                                            bps_credit = net_credit,
                                            bps_spread_width = actual_width,
                                            bps_max_risk = max_risk,
                                            bps_otm_percent = otm_percent,
                                            bps_return_on_risk = return_on_risk,
                                            bps_annualized_return = return_on_risk * y,
                                            bps_expiry = expiry short_row,
                                            bps_expiry_str = expiry_str short_row,
                                            bps_dte = dte short_row,
                                            bps_short_volume = volume short_row,
                                            bps_long_volume = volume long_row\<rparr>]))
                       else Inr [])))"



definition long_options :: "chain_row list \<Rightarrow> rat \<Rightarrow> chain_row list" where
  "long_options expiry_chain short_strike =
     (let long_strike = short_strike - SPREAD_WIDTH
      in filter (\<lambda>r. strike r \<ge> long_strike - 1/2 \<and> strike r \<le> long_strike + 1/2)
           expiry_chain)"

text \<open>The body of the loop over the short rows of an expiry group.\<close>

definition bps_short_row ::
  "string \<Rightarrow> rat \<Rightarrow> chain_row list \<Rightarrow> chain_row \<Rightarrow> error + bps_candidate list" where
  "bps_short_row symbol current_price expiry_chain short_row =
     (let min_strike = current_price * (1 - MAX_OTM_PERCENT / 100);
          max_strike = current_price * (1 - MIN_OTM_PERCENT / 100);
          short_strike = strike short_row
      in if short_strike < min_strike \<or> short_strike > max_strike then Inr []
         else (case long_options expiry_chain short_strike of
                 [] \<Rightarrow> Inr []
               | long_row # _ \<Rightarrow> bps_pair symbol current_price short_row long_row))"

text \<open>
  The same lines of the matcher, from the test of the short strike to the append, with
  every arithmetic operation rounded by \<open>rnd\<close>: the code on doubles when \<open>rnd\<close> is
  \<open>binary64\<close>, the definitions above when \<open>rnd\<close> is the identity.
\<close>

definition bps_pair_rounded ::
  "(rat \<Rightarrow> rat) \<Rightarrow> string \<Rightarrow> rat \<Rightarrow> chain_row \<Rightarrow> chain_row \<Rightarrow> error + bps_candidate list" where
  "bps_pair_rounded rnd symbol current_price short_row long_row =
     (let short_premium = rnd (rnd (bid short_row + ask short_row) / 2);
          long_premium = rnd (rnd (bid long_row + ask long_row) / 2);
          net_credit = rnd (short_premium - long_premium);
          actual_width = rnd (strike short_row - strike long_row);
          max_risk = rnd (rnd (actual_width - net_credit) * 100)
      in if max_risk \<le> 0 \<or> net_credit \<le> 0 then Inr []
         else (case truediv_rounded rnd net_credit actual_width of
                 Inl e \<Rightarrow> Inl e
               | Inr q \<Rightarrow>
                   (let return_on_risk = rnd (q * 100)
                    in if return_on_risk \<ge> MIN_RETURN_ON_RISK then
                         (case truediv_rounded rnd (rnd (current_price - strike short_row))
                                 current_price of
                            Inl e \<Rightarrow> Inl e
                          | Inr otm \<Rightarrow>
                              (let otm_percent = rnd (otm * 100)
                               in case truediv_rounded rnd 365 (of_int (dte short_row)) of
                                    Inl e \<Rightarrow> Inl e
                                  | Inr y \<Rightarrow>
                                      Inr [\<lparr>bps_symbol = symbol, bps_strategy = ''BPS'',
                                            bps_current_price = current_price,
                                            bps_short_strike = strike short_row,
                                            bps_long_strike = strike long_row,
                                            bps_short_premium = short_premium,
                                            bps_long_premium = long_premium,
                                            bps_credit = net_credit,
                                            bps_spread_width = actual_width,
                                            bps_max_risk = max_risk,
                                            bps_otm_percent = otm_percent,
                                            bps_return_on_risk = return_on_risk,
                                            bps_annualized_return = rnd (return_on_risk * y),
                                            bps_expiry = expiry short_row,
                                            bps_expiry_str = expiry_str short_row,
                                            bps_dte = dte short_row,
                                            bps_short_volume = volume short_row,
                                            bps_long_volume = volume long_row\<rparr>]))
                       else Inr [])))"

definition long_options_rounded :: "(rat \<Rightarrow> rat) \<Rightarrow> chain_row list \<Rightarrow> rat \<Rightarrow> chain_row list" where
  "long_options_rounded rnd expiry_chain short_strike =
     (let long_strike = rnd (short_strike - SPREAD_WIDTH)
      in filter (\<lambda>r. strike r \<ge> rnd (long_strike - 1/2) \<and> strike r \<le> rnd (long_strike + 1/2))
           expiry_chain)"

definition bps_short_row_rounded ::
  "(rat \<Rightarrow> rat) \<Rightarrow> string \<Rightarrow> rat \<Rightarrow> chain_row list \<Rightarrow> chain_row \<Rightarrow> error + bps_candidate list" where
  "bps_short_row_rounded rnd symbol current_price expiry_chain short_row =
     (let min_strike = rnd (current_price * rnd (1 - rnd (MAX_OTM_PERCENT / 100)));
          max_strike = rnd (current_price * rnd (1 - rnd (MIN_OTM_PERCENT / 100)));
          short_strike = strike short_row
      in if short_strike < min_strike \<or> short_strike > max_strike then Inr []
         else (case long_options_rounded rnd expiry_chain short_strike of
                 [] \<Rightarrow> Inr []
               | long_row # _ \<Rightarrow> bps_pair_rounded rnd symbol current_price short_row long_row))"

text \<open>The body of the loop over the expiries of the filtered chain.\<close>

definition bps_expiry_group ::
  "(chain_row list \<Rightarrow> nat \<Rightarrow> nat) \<Rightarrow> string \<Rightarrow> rat \<Rightarrow> chain_row list \<Rightarrow> datetime \<Rightarrow>
     error + bps_candidate list" where
  "bps_expiry_group rank symbol current_price chain e =
     (let expiry_chain = sort_values rank (filter (\<lambda>r. expiry r = e) chain)
      in for_each (bps_short_row symbol current_price expiry_chain) expiry_chain)"

text \<open>\<^verbatim>\<open>screen_bull_put_spread\<close> after both fetches.\<close>

definition bps_screen_chain ::
  "(chain_row list \<Rightarrow> nat \<Rightarrow> nat) \<Rightarrow> string \<Rightarrow> rat \<Rightarrow> chain_row list \<Rightarrow>
     error + bps_candidate list" where
  "bps_screen_chain rank symbol current_price chain =
     (let min_strike = current_price * (1 - MAX_OTM_PERCENT / 100);
          max_strike = current_price * (1 - MIN_OTM_PERCENT / 100);
          chain' = filter (\<lambda>r. strike r \<ge> min_strike - SPREAD_WIDTH \<and> strike r \<le> max_strike \<and>
                               of_int (volume r) \<ge> MIN_VOLUME / 2 \<and>
                               of_int (openInterest r) \<ge> MIN_OPEN_INTEREST / 2 \<and>
                               bid r > 0 \<and> ask r > 0) chain
      in for_each (bps_expiry_group rank symbol current_price chain')
           (unique (map expiry chain')))"

definition screen_bull_put_spread ::
  "market \<Rightarrow> session \<Rightarrow> string \<Rightarrow> (error + bps_candidate list) \<times> session" where
  "screen_bull_put_spread m st symbol =
     (case get_current_price m st symbol of
        (None, st1) \<Rightarrow> (Inr [], st1)
      | (Some current_price, st1) \<Rightarrow>
          if current_price = 0 then (Inr [], st1)
          else (case get_options_chain m st1 symbol of
                  (None, st2) \<Rightarrow> (Inr [], st2)
                | (Some chain, st2) \<Rightarrow>
                    if length chain = 0 then (Inr [], st2)
                    else (bps_screen_chain (ties m) symbol current_price chain, st2)))"

subsection \<open>The scan\<close>

text \<open>
  The loop of \<^verbatim>\<open>screen_all_stocks\<close> over the two screeners it calls: a raise of
  either screener leaves the \<^verbatim>\<open>try\<close> block, keeping what was appended before it, and the
  loop goes on with the next symbol.
\<close>

fun scan_with ::
  "(session \<Rightarrow> string \<Rightarrow> (error + csp_candidate list) \<times> session) \<Rightarrow>
   (session \<Rightarrow> string \<Rightarrow> (error + bps_candidate list) \<times> session) \<Rightarrow>
   string list \<Rightarrow> session \<Rightarrow> results \<Rightarrow> results \<times> session" where
  "scan_with csp bps [] st res = (res, st)"
| "scan_with csp bps (symbol # rest) st res =
     (case csp st symbol of
        (Inl e, st1) \<Rightarrow> scan_with csp bps rest st1 res
      | (Inr csp_results, st1) \<Rightarrow>
          (let res1 = res\<lparr>CSP := CSP res @ csp_results\<rparr>
           in case bps st1 symbol of
                (Inl e, st2) \<Rightarrow> scan_with csp bps rest st2 res1
              | (Inr bps_results, st2) \<Rightarrow>
                  scan_with csp bps rest st2 (res1\<lparr>BPS := BPS res1 @ bps_results\<rparr>)))"

definition scan :: "market \<Rightarrow> string list \<Rightarrow> session \<Rightarrow> results \<Rightarrow> results \<times> session" where
  "scan m = scan_with (screen_csp m) (screen_bull_put_spread m)"

definition screen_all_stocks :: "market \<Rightarrow> string list \<Rightarrow> session \<Rightarrow> results \<times> session" where
  "screen_all_stocks m tickers st =
     (case scan m tickers st \<lparr>CSP = [], BPS = []\<rparr> of
        (res, st') \<Rightarrow>
          (\<lparr>CSP = sort_descending csp_annualized_return (CSP res),
            BPS = sort_descending bps_annualized_return (BPS res)\<rparr>, st'))"

text \<open>
  The fetches a screener makes for a symbol in a session fail: the price comes back as
  None, or the chain does.
\<close>

definition fetch_fails :: "market \<Rightarrow> session \<Rightarrow> string \<Rightarrow> bool" where
  "fetch_fails m st symbol =
     (fst (get_current_price m st symbol) = None \<or>
      fst (get_options_chain m (snd (get_current_price m st symbol)) symbol) = None)"

text \<open>A session in which nothing has been requested yet.\<close>

definition fresh :: session where
  "fresh = \<lparr>history_calls = (\<lambda>_. 0), options_calls = (\<lambda>_. 0)\<rparr>"

subsection \<open>Sample data\<close>

text \<open>
  The legs of the scenarios B and C of the specification, two more long legs at 90.4 and
  at 90, a chain that expires in five days, and three data sources for a spot of 100: a
  steady one, one whose price request fails from the second request on, and one whose
  price moves to 101 after the first request. Their sort leaves rows of equal strike in
  the order it got them.
\<close>

definition leg_b :: put_row where
  "leg_b = \<lparr>strike = 92, bid = 35/2, ask = 193/10, volume = 10, openInterest = 50\<rparr>"

definition leg_short :: put_row where
  "leg_short = \<lparr>strike = 95, bid = 2, ask = 11/5, volume = 5, openInterest = 25\<rparr>"

definition leg_long :: put_row where
  "leg_long = \<lparr>strike = 451/5, bid = 1/2, ask = 7/10, volume = 5, openInterest = 25\<rparr>"




text \<open>A row whose decimal figures are read as doubles.\<close>

definition as_double :: "put_row \<Rightarrow> put_row" where
  "as_double p = p\<lparr>strike := binary64 (strike p), bid := binary64 (bid p),
                      ask := binary64 (ask p)\<rparr>"

definition in_five_days :: "put_row \<Rightarrow> chain_row" where
  "in_five_days = tag_row (5 * day) ''2026-11-09'' 5"

definition sample_options :: options_reply where
  "sample_options =
     \<lparr>expirations = Returns [\<lparr>exp_str = ''2026-11-09'', strptime = Some (5 * day),
                              option_chain = Returns [leg_b, leg_short, leg_long]\<rparr>],
      current_date = 0\<rparr>"

definition steady_market :: market where
  "steady_market =
     \<lparr>history = (\<lambda>s n. Returns [100]), options = (\<lambda>s n. sample_options),
      ties = (\<lambda>xs i. 0)\<rparr>"

definition flaky_market :: market where
  "flaky_market =
     \<lparr>history = (\<lambda>s n. if n = 0 then Returns [100] else Raises),
      options = (\<lambda>s n. sample_options), ties = (\<lambda>xs i. 0)\<rparr>"

definition drifting_market :: market where
  "drifting_market =
     \<lparr>history = (\<lambda>s n. if n = 0 then Returns [100] else Returns [101]),
      options = (\<lambda>s n. sample_options), ties = (\<lambda>xs i. 0)\<rparr>"

text \<open>
  A data source whose first two price requests for the symbol Y fail, and a spread
  screener and a put screener that raise for the symbol Y.
\<close>

definition late_market :: market where
  "late_market =
     \<lparr>history = (\<lambda>s n. if s = ''Y'' \<and> n < 2 then Raises else Returns [100]),
      options = (\<lambda>s n. sample_options), ties = (\<lambda>xs i. 0)\<rparr>"

definition raising_bps ::
  "market \<Rightarrow> session \<Rightarrow> string \<Rightarrow> (error + bps_candidate list) \<times> session" where
  "raising_bps m st symbol =
     (if symbol = ''Y'' then (Inl ZeroDivisionError, st) else screen_bull_put_spread m st symbol)"

definition raising_csp ::
  "market \<Rightarrow> session \<Rightarrow> string \<Rightarrow> (error + csp_candidate list) \<times> session" where
  "raising_csp m st symbol =
     (if symbol = ''Y'' then (Inl ZeroDivisionError, st) else screen_csp m st symbol)"

text \<open>
  A data source whose chains expire in five days for the symbol X and in one day for
  every other symbol.
\<close>

definition next_day_options :: options_reply where
  "next_day_options =
     \<lparr>expirations = Returns [\<lparr>exp_str = ''2026-11-05'', strptime = Some day,
                              option_chain = Returns [leg_b, leg_short, leg_long]\<rparr>],
      current_date = 0\<rparr>"

definition ranked_market :: market where
  "ranked_market =
     \<lparr>history = (\<lambda>s n. Returns [100]),
      options = (\<lambda>s n. if s = ''X'' then sample_options else next_day_options),
      ties = (\<lambda>xs i. 0)\<rparr>"

section \<open>Properties\<close>

subsection \<open>Loops and fetches\<close>

lemma for_each_member:
  "for_each body xs = Inr ys \<Longrightarrow> y \<in> set ys \<Longrightarrow>
     \<exists>x\<in>set xs. \<exists>zs. body x = Inr zs \<and> y \<in> set zs"
proof (induction xs arbitrary: ys)
  case Nil
  then show ?case by simp
next
  case (Cons x xs)
  then show ?case by (fastforce split: sum.splits)
qed

lemma for_each_total:
  "(\<And>x. x \<in> set xs \<Longrightarrow> \<exists>zs. body x = Inr zs) \<Longrightarrow> \<exists>ys. for_each body xs = Inr ys"
proof (induction xs)
  case Nil
  then show ?case by simp
next
  case (Cons x xs)
  then obtain zs where "body x = Inr zs" by fastforce
  moreover obtain ys where "for_each body xs = Inr ys" using Cons by fastforce
  ultimately show ?case by simp
qed

lemma all_puts_dte:
  "all_puts now es = Some ps \<Longrightarrow> rows \<in> set ps \<Longrightarrow> r \<in> set rows \<Longrightarrow>
     MIN_DTE \<le> dte r \<and> dte r \<le> MAX_DTE"
proof (induction es arbitrary: ps)
  case Nil
  then show ?case by simp
next
  case (Cons e es)
  then show ?case
    by (auto simp: Let_def tag_row_def split: option.splits if_splits reply.splits)
qed

lemma get_options_chain_dte:
  assumes "get_options_chain m st symbol = (Some chain, st')" and "r \<in> set chain"
  shows "MIN_DTE \<le> dte r \<and> dte r \<le> MAX_DTE"
  using assms
  by (auto simp: get_options_chain_def Let_def split: reply.splits if_splits option.splits
           dest: all_puts_dte)

lemma csp_row_member:
  assumes "csp_row symbol cp row = Inr cs" and "c \<in> set cs"
  shows "csp_symbol c = symbol \<and> csp_current_price c = cp \<and> csp_strike c = strike row \<and>
         csp_short_strike c = strike row \<and> csp_dte c = dte row \<and>
         csp_premium c = (bid row + ask row) / 2 \<and>
         csp_return_on_risk c = (bid row + ask row) / 2 / strike row * 100 \<and>
         csp_return_on_risk c = csp_premium c / csp_strike c * 100 \<and>
         csp_annualized_return c = csp_return_on_risk c * (365 / of_int (dte row)) \<and>
         MIN_RETURN_ON_RISK \<le> csp_return_on_risk c \<and> dte row \<noteq> 0 \<and> strike row \<noteq> 0"
  using assms
  by (auto simp: csp_row_def truediv_def Let_def split: if_splits)

lemma window_strike_nonzero:
  fixes cp s :: rat
  assumes "cp \<noteq> 0" and "cp * (1 - MAX_OTM_PERCENT / 100) \<le> s"
    and "s \<le> cp * (1 - MIN_OTM_PERCENT / 100)"
  shows "s \<noteq> 0"
  using assms by (auto simp: MAX_OTM_PERCENT_def MIN_OTM_PERCENT_def)

lemma csp_row_total:
  assumes "cp \<noteq> 0" and "strike row \<noteq> 0" and "dte row \<noteq> 0"
  shows "\<exists>cs. csp_row symbol cp row = Inr cs"
  using assms by (simp add: csp_row_def truediv_def Let_def)

subsection \<open>The put screener\<close>

lemma csp_screen_chain_member:
  assumes "csp_screen_chain symbol cp chain = Inr cs" and "c \<in> set cs"
  shows "\<exists>row\<in>set chain. \<exists>zs. csp_row symbol cp row = Inr zs \<and> c \<in> set zs \<and>
           cp * (1 - MAX_OTM_PERCENT / 100) \<le> strike row \<and>
           strike row \<le> cp * (1 - MIN_OTM_PERCENT / 100)"
proof -
  from assms obtain row zs where
    "row \<in> set (filter (\<lambda>r. strike r \<ge> cp * (1 - MAX_OTM_PERCENT / 100) \<and>
                       strike r \<le> cp * (1 - MIN_OTM_PERCENT / 100) \<and>
                       of_int (volume r) \<ge> MIN_VOLUME \<and>
                       of_int (openInterest r) \<ge> MIN_OPEN_INTEREST \<and>
                       bid r > 0 \<and> ask r > 0) chain)"
    "csp_row symbol cp row = Inr zs" "c \<in> set zs"
    unfolding csp_screen_chain_def Let_def by (blast dest: for_each_member)
  then show ?thesis by auto
qed

lemma csp_screen_chain_total:
  assumes "cp \<noteq> 0" and "\<And>r. r \<in> set chain \<Longrightarrow> dte r \<noteq> 0"
  shows "\<exists>cs. csp_screen_chain symbol cp chain = Inr cs"
  unfolding csp_screen_chain_def Let_def
proof (rule for_each_total)
  fix x
  assume "x \<in> set (filter (\<lambda>r. strike r \<ge> cp * (1 - MAX_OTM_PERCENT / 100) \<and>
                       strike r \<le> cp * (1 - MIN_OTM_PERCENT / 100) \<and>
                       of_int (volume r) \<ge> MIN_VOLUME \<and>
                       of_int (openInterest r) \<ge> MIN_OPEN_INTEREST \<and>
                       bid r > 0 \<and> ask r > 0) chain)"
  then have "x \<in> set chain" "cp * (1 - MAX_OTM_PERCENT / 100) \<le> strike x"
    "strike x \<le> cp * (1 - MIN_OTM_PERCENT / 100)" by auto
  with assms have "strike x \<noteq> 0" "dte x \<noteq> 0"
    using window_strike_nonzero by blast+
  with assms(1) show "\<exists>zs. csp_row symbol cp x = Inr zs" by (rule csp_row_total)
qed

lemma dte_window_nonzero: "MIN_DTE \<le> d \<Longrightarrow> d \<noteq> 0"
  by (simp add: MIN_DTE_def)

text \<open>What a fetch of the price does to the session.\<close>

lemma get_current_price_session:
  "snd (get_current_price m st symbol) =
     st\<lparr>history_calls := (history_calls st)(symbol := Suc (history_calls st symbol))\<rparr>"
  by (simp add: get_current_price_def Let_def split: reply.splits)

lemma get_options_chain_session:
  "snd (get_options_chain m st symbol) =
     st\<lparr>options_calls := (options_calls st)(symbol := Suc (options_calls st symbol))\<rparr>"
  by (simp add: get_options_chain_def Let_def split: reply.splits option.splits)

lemma get_current_price_Some:
  "get_current_price m st symbol = (Some p, st1) \<Longrightarrow>
     \<exists>closes. history m symbol (history_calls st symbol) = Returns closes \<and> closes \<noteq> [] \<and>
       p = last closes"
  by (auto simp: get_current_price_def Let_def split: reply.splits if_splits)

lemma screen_csp_total: "\<exists>cs. fst (screen_csp m st symbol) = Inr cs"
proof (cases "get_current_price m st symbol")
  case (Pair po st1)
  show ?thesis
  proof (cases po)
    case None
    with Pair show ?thesis by (simp add: screen_csp_def)
  next
    case (Some cp)
    show ?thesis
    proof (cases "get_options_chain m st1 symbol")
      case chain: (Pair co st2)
      show ?thesis
      proof (cases co)
        case None
        with Pair Some chain show ?thesis by (simp add: screen_csp_def)
      next
        case (Some ch)
        have "\<And>r. r \<in> set ch \<Longrightarrow> dte r \<noteq> 0"
          using get_options_chain_dte chain Some dte_window_nonzero by blast
        then have "cp \<noteq> 0 \<Longrightarrow> \<exists>cs. csp_screen_chain symbol cp ch = Inr cs"
          using csp_screen_chain_total by blast
        with Pair \<open>po = Some cp\<close> chain Some show ?thesis
          by (auto simp: screen_csp_def)
      qed
    qed
  qed
qed

lemma screen_csp_member:
  assumes "screen_csp m st symbol = (Inr cs, st')" and "c \<in> set cs"
  shows "\<exists>row zs chain st1 st2.
           get_current_price m st symbol = (Some (csp_current_price c), st1) \<and>
           get_options_chain m st1 symbol = (Some chain, st2) \<and> row \<in> set chain \<and>
           csp_row symbol (csp_current_price c) row = Inr zs \<and> c \<in> set zs \<and>
           csp_current_price c * (1 - MAX_OTM_PERCENT / 100) \<le> strike row \<and>
           strike row \<le> csp_current_price c * (1 - MIN_OTM_PERCENT / 100)"
proof -
  from assms obtain cp st1 chain st2 where
    p: "get_current_price m st symbol = (Some cp, st1)" and
    ch: "get_options_chain m st1 symbol = (Some chain, st2)" and
    sc: "csp_screen_chain symbol cp chain = Inr cs"
    by (auto simp: screen_csp_def split: prod.splits option.splits if_splits)
  from csp_screen_chain_member[OF sc assms(2)] obtain row zs where
    r: "row \<in> set chain" "csp_row symbol cp row = Inr zs" "c \<in> set zs"
       "cp * (1 - MAX_OTM_PERCENT / 100) \<le> strike row"
       "strike row \<le> cp * (1 - MIN_OTM_PERCENT / 100)" by blast
  from csp_row_member[OF r(2,3)] have "csp_current_price c = cp" by simp
  with p ch r show ?thesis by blast
qed

subsection \<open>The spread matcher\<close>

lemma bps_pair_member:
  assumes "bps_pair symbol cp s l = Inr cs" and "c \<in> set cs"
  shows "cs = [c] \<and> bps_symbol c = symbol \<and> bps_current_price c = cp \<and>
         bps_short_strike c = strike s \<and> bps_long_strike c = strike l \<and>
         bps_short_premium c = premium_of s \<and> bps_long_premium c = premium_of l \<and>
         bps_credit c = net_credit_of s l \<and> bps_spread_width c = actual_width_of s l \<and>
         bps_max_risk c = max_risk_of s l \<and>
         bps_return_on_risk c = net_credit_of s l / actual_width_of s l * 100 \<and>
         bps_annualized_return c = bps_return_on_risk c * (365 / of_int (dte s)) \<and>
         bps_dte c = dte s \<and> bps_long_volume c = volume l \<and>
         0 < net_credit_of s l \<and> 0 < max_risk_of s l \<and>
         MIN_RETURN_ON_RISK \<le> bps_return_on_risk c \<and> dte s \<noteq> 0"
  using assms
  by (auto simp: bps_pair_def truediv_def Let_def split: if_splits)

lemma guard_width_positive:
  assumes "\<not> (max_risk_of s l \<le> 0 \<or> net_credit_of s l \<le> 0)"
  shows "0 < actual_width_of s l" and "net_credit_of s l < actual_width_of s l"
  using assms by (auto simp: max_risk_of_def)

lemma bps_pair_total:
  assumes "cp \<noteq> 0" and "dte s \<noteq> 0"
  shows "\<exists>cs. bps_pair symbol cp s l = Inr cs"
proof (cases "max_risk_of s l \<le> 0 \<or> net_credit_of s l \<le> 0")
  case True
  then show ?thesis by (auto simp: bps_pair_def Let_def)
next
  case False
  then have "actual_width_of s l \<noteq> 0" using guard_width_positive(1) by fastforce
  with False assms show ?thesis by (simp add: bps_pair_def truediv_def Let_def)
qed


lemma long_options_hd:
  assumes "long_options grp k = l # rest"
  shows "l \<in> set grp \<and> k - SPREAD_WIDTH - 1/2 \<le> strike l \<and> strike l \<le> k - SPREAD_WIDTH + 1/2"
proof -
  have "l \<in> set (long_options grp k)" using assms by simp
  then show ?thesis by (simp add: long_options_def Let_def)
qed

lemma bps_short_row_member:
  assumes "bps_short_row symbol cp grp s = Inr cs" and "c \<in> set cs"
  shows "cp * (1 - MAX_OTM_PERCENT / 100) \<le> strike s \<and>
         strike s \<le> cp * (1 - MIN_OTM_PERCENT / 100) \<and>
         (\<exists>l rest. long_options grp (strike s) = l # rest \<and> bps_pair symbol cp s l = Inr cs)"
  using assms
  by (auto simp: bps_short_row_def Let_def split: if_splits list.splits)

lemma bps_short_row_total:
  assumes "cp \<noteq> 0" and "dte s \<noteq> 0"
  shows "\<exists>cs. bps_short_row symbol cp grp s = Inr cs"
  using bps_pair_total[OF assms]
  by (auto simp: bps_short_row_def Let_def split: list.splits)

lemma set_sort_descending: "set (sort_descending f xs) = set xs"
  by (simp add: sort_descending_def)

text \<open>The sort of an expiry group gives the rows it got, the highest strike first.\<close>

lemma map_snd_enumerate: "map snd (enumerate n xs) = xs"
  by (induction xs arbitrary: n) simp_all

lemma set_sort_values: "set (sort_values rank xs) = set xs"
proof -
  have "set (sort_values rank xs) = snd ` set (enumerate 0 xs)"
    by (simp add: sort_values_def)
  also have "\<dots> = set (map snd (enumerate 0 xs))" by (simp only: set_map)
  also have "\<dots> = set xs" by (simp only: map_snd_enumerate)
  finally show ?thesis .
qed



lemma set_unique: "set (unique xs) = set xs"
proof (induction xs rule: unique.induct)
  case 1
  then show ?case by simp
next
  case (2 x xs)
  then show ?case by auto
qed

lemma bps_expiry_group_member:
  assumes "bps_expiry_group rank symbol cp chain e = Inr cs" and "c \<in> set cs"
  shows "\<exists>s\<in>set chain. \<exists>zs. c \<in> set zs \<and>
           bps_short_row symbol cp (sort_values rank (filter (\<lambda>r. expiry r = e) chain)) s
             = Inr zs"
proof -
  from assms obtain s zs where
    "s \<in> set (sort_values rank (filter (\<lambda>r. expiry r = e) chain))"
    "bps_short_row symbol cp (sort_values rank (filter (\<lambda>r. expiry r = e) chain)) s = Inr zs"
    "c \<in> set zs"
    unfolding bps_expiry_group_def Let_def by (blast dest: for_each_member)
  then show ?thesis by (auto simp: set_sort_values)
qed

lemma bps_expiry_group_total:
  assumes "cp \<noteq> 0" and "\<And>r. r \<in> set chain \<Longrightarrow> dte r \<noteq> 0"
  shows "\<exists>cs. bps_expiry_group rank symbol cp chain e = Inr cs"
  unfolding bps_expiry_group_def Let_def
proof (rule for_each_total)
  fix x
  assume "x \<in> set (sort_values rank (filter (\<lambda>r. expiry r = e) chain))"
  then have "x \<in> set chain" by (simp add: set_sort_values)
  then have "dte x \<noteq> 0" by (rule assms(2))
  with assms(1) show "\<exists>zs. bps_short_row symbol cp
                  (sort_values rank (filter (\<lambda>r. expiry r = e) chain)) x = Inr zs"
    by (rule bps_short_row_total)
qed

text \<open>Every spread comes from a short row and a long row of the fetched chain.\<close>

lemma bps_screen_chain_member:
  assumes "bps_screen_chain rank symbol cp chain = Inr cs" and "c \<in> set cs"
  shows "\<exists>s\<in>set chain. \<exists>l\<in>set chain. \<exists>zs. bps_pair symbol cp s l = Inr zs \<and> c \<in> set zs \<and>
           cp * (1 - MAX_OTM_PERCENT / 100) \<le> strike s \<and>
           strike s \<le> cp * (1 - MIN_OTM_PERCENT / 100) \<and>
           strike s - SPREAD_WIDTH - 1/2 \<le> strike l \<and>
           strike l \<le> strike s - SPREAD_WIDTH + 1/2"
proof -
  define chain' where "chain' = filter (\<lambda>r. strike r \<ge> cp * (1 - MAX_OTM_PERCENT / 100) - SPREAD_WIDTH \<and>
                               strike r \<le> cp * (1 - MIN_OTM_PERCENT / 100) \<and>
                               of_int (volume r) \<ge> MIN_VOLUME / 2 \<and>
                               of_int (openInterest r) \<ge> MIN_OPEN_INTEREST / 2 \<and>
                               bid r > 0 \<and> ask r > 0) chain"
  have sub: "set chain' \<subseteq> set chain" by (auto simp: chain'_def)
  from assms have
    "for_each (bps_expiry_group rank symbol cp chain') (unique (map expiry chain')) = Inr cs"
    by (simp add: bps_screen_chain_def Let_def chain'_def)
  with assms(2) obtain e ys where
    g: "bps_expiry_group rank symbol cp chain' e = Inr ys" "c \<in> set ys"
    by (blast dest: for_each_member)
  define grp where "grp = sort_values rank (filter (\<lambda>r. expiry r = e) chain')"
  from bps_expiry_group_member[OF g] obtain s zs where
    s: "s \<in> set chain'" "c \<in> set zs" "bps_short_row symbol cp grp s = Inr zs"
    unfolding grp_def by blast
  from bps_short_row_member[OF s(3,2)] obtain l rest where
    w: "cp * (1 - MAX_OTM_PERCENT / 100) \<le> strike s"
       "strike s \<le> cp * (1 - MIN_OTM_PERCENT / 100)" and
    l: "long_options grp (strike s) = l # rest" "bps_pair symbol cp s l = Inr zs"
    by blast
  from long_options_hd[OF l(1)] have
    lw: "l \<in> set grp" "strike s - SPREAD_WIDTH - 1/2 \<le> strike l"
        "strike l \<le> strike s - SPREAD_WIDTH + 1/2" by simp_all
  from lw(1) have "l \<in> set chain'" by (simp add: grp_def set_sort_values)
  with sub s(1) have "s \<in> set chain" "l \<in> set chain" by auto
  with l(2) s(2) w lw(2,3) show ?thesis by blast
qed

lemma bps_screen_chain_total:
  assumes "cp \<noteq> 0" and "\<And>r. r \<in> set chain \<Longrightarrow> dte r \<noteq> 0"
  shows "\<exists>cs. bps_screen_chain rank symbol cp chain = Inr cs"
  unfolding bps_screen_chain_def Let_def
proof (rule for_each_total)
  fix x
  show "\<exists>zs. bps_expiry_group rank symbol cp
          (filter (\<lambda>r. strike r \<ge> cp * (1 - MAX_OTM_PERCENT / 100) - SPREAD_WIDTH \<and>
                               strike r \<le> cp * (1 - MIN_OTM_PERCENT / 100) \<and>
                               of_int (volume r) \<ge> MIN_VOLUME / 2 \<and>
                               of_int (openInterest r) \<ge> MIN_OPEN_INTEREST / 2 \<and>
                               bid r > 0 \<and> ask r > 0) chain) x = Inr zs"
    by (rule bps_expiry_group_total) (use assms in auto)
qed

lemma screen_bull_put_spread_total: "\<exists>cs. fst (screen_bull_put_spread m st symbol) = Inr cs"
proof (cases "get_current_price m st symbol")
  case (Pair po st1)
  show ?thesis
  proof (cases po)
    case None
    with Pair show ?thesis by (simp add: screen_bull_put_spread_def)
  next
    case (Some cp)
    show ?thesis
    proof (cases "get_options_chain m st1 symbol")
      case chain: (Pair co st2)
      show ?thesis
      proof (cases co)
        case None
        with Pair Some chain show ?thesis by (simp add: screen_bull_put_spread_def)
      next
        case (Some ch)
        have "\<And>r. r \<in> set ch \<Longrightarrow> dte r \<noteq> 0"
          using get_options_chain_dte chain Some dte_window_nonzero by blast
        then have "cp \<noteq> 0 \<Longrightarrow> \<exists>cs. bps_screen_chain (ties m) symbol cp ch = Inr cs"
          using bps_screen_chain_total by blast
        with Pair \<open>po = Some cp\<close> chain Some show ?thesis
          by (auto simp: screen_bull_put_spread_def)
      qed
    qed
  qed
qed

lemma screen_bull_put_spread_member:
  assumes "screen_bull_put_spread m st symbol = (Inr cs, st')" and "c \<in> set cs"
  shows "\<exists>s l zs chain st1 st2.
           get_current_price m st symbol = (Some (bps_current_price c), st1) \<and>
           get_options_chain m st1 symbol = (Some chain, st2) \<and>
           s \<in> set chain \<and> l \<in> set chain \<and>
           bps_pair symbol (bps_current_price c) s l = Inr zs \<and> c \<in> set zs \<and>
           bps_current_price c * (1 - MAX_OTM_PERCENT / 100) \<le> strike s \<and>
           strike s \<le> bps_current_price c * (1 - MIN_OTM_PERCENT / 100) \<and>
           strike s - SPREAD_WIDTH - 1/2 \<le> strike l \<and>
           strike l \<le> strike s - SPREAD_WIDTH + 1/2"
proof -
  from assms obtain cp st1 chain st2 where
    p: "get_current_price m st symbol = (Some cp, st1)" and
    ch: "get_options_chain m st1 symbol = (Some chain, st2)" and
    sc: "bps_screen_chain (ties m) symbol cp chain = Inr cs"
    by (auto simp: screen_bull_put_spread_def split: prod.splits option.splits if_splits)
  from bps_screen_chain_member[OF sc assms(2)] obtain s l zs where
    r: "s \<in> set chain" "l \<in> set chain" "bps_pair symbol cp s l = Inr zs" "c \<in> set zs"
       "cp * (1 - MAX_OTM_PERCENT / 100) \<le> strike s"
       "strike s \<le> cp * (1 - MIN_OTM_PERCENT / 100)"
       "strike s - SPREAD_WIDTH - 1/2 \<le> strike l"
       "strike l \<le> strike s - SPREAD_WIDTH + 1/2" by blast
  from bps_pair_member[OF r(3,4)] have "bps_current_price c = cp" by simp
  with p ch r show ?thesis by blast
qed

subsection \<open>Where the candidates of a scan come from\<close>

text \<open>The loop over the screeners of the code.\<close>

lemma scan_Nil [simp]: "scan m [] st res = (res, st)"
  by (simp add: scan_def)

lemma scan_Cons [simp]:
  "scan m (symbol # rest) st res =
     (case screen_csp m st symbol of
        (Inl e, st1) \<Rightarrow> scan m rest st1 res
      | (Inr csp_results, st1) \<Rightarrow>
          (let res1 = res\<lparr>CSP := CSP res @ csp_results\<rparr>
           in case screen_bull_put_spread m st1 symbol of
                (Inl e, st2) \<Rightarrow> scan m rest st2 res1
              | (Inr bps_results, st2) \<Rightarrow>
                  scan m rest st2 (res1\<lparr>BPS := BPS res1 @ bps_results\<rparr>)))"
  unfolding scan_def by simp

lemma scan_CSP_member:
  "scan m ts st res = (res', st') \<Longrightarrow> c \<in> set (CSP res') \<Longrightarrow>
     c \<in> set (CSP res) \<or>
     (\<exists>s\<in>set ts. \<exists>st0 cs st1. screen_csp m st0 s = (Inr cs, st1) \<and> c \<in> set cs)"
proof (induction ts arbitrary: st res)
  case Nil
  then show ?case by simp
next
  case (Cons s ts)
  show ?case
  proof (cases "screen_csp m st s")
    case csp: (Pair r1 st1)
    show ?thesis
    proof (cases r1)
      case (Inl e)
      with Cons.prems csp have "scan m ts st1 res = (res', st')" by simp
      from Cons.IH[OF this Cons.prems(2)] show ?thesis by auto
    next
      case (Inr cs)
      show ?thesis
      proof (cases "screen_bull_put_spread m st1 s")
        case bps: (Pair r2 st2)
        show ?thesis
        proof (cases r2)
          case (Inl e)
          with Cons.prems csp Inr bps
          have "scan m ts st2 (res\<lparr>CSP := CSP res @ cs\<rparr>) = (res', st')" by simp
          from Cons.IH[OF this Cons.prems(2)] csp Inr show ?thesis by auto
        next
          case bs: (Inr bs)
          with Cons.prems csp Inr bps
          have "scan m ts st2 (res\<lparr>CSP := CSP res @ cs, BPS := BPS res @ bs\<rparr>) = (res', st')"
            by simp
          from Cons.IH[OF this Cons.prems(2)] csp Inr show ?thesis by auto
        qed
      qed
    qed
  qed
qed

lemma scan_BPS_member:
  "scan m ts st res = (res', st') \<Longrightarrow> c \<in> set (BPS res') \<Longrightarrow>
     c \<in> set (BPS res) \<or>
     (\<exists>s\<in>set ts. \<exists>st0 cs st1. screen_bull_put_spread m st0 s = (Inr cs, st1) \<and> c \<in> set cs)"
proof (induction ts arbitrary: st res)
  case Nil
  then show ?case by simp
next
  case (Cons s ts)
  show ?case
  proof (cases "screen_csp m st s")
    case csp: (Pair r1 st1)
    show ?thesis
    proof (cases r1)
      case (Inl e)
      with Cons.prems csp have "scan m ts st1 res = (res', st')" by simp
      from Cons.IH[OF this Cons.prems(2)] show ?thesis by auto
    next
      case (Inr cs)
      show ?thesis
      proof (cases "screen_bull_put_spread m st1 s")
        case bps: (Pair r2 st2)
        show ?thesis
        proof (cases r2)
          case (Inl e)
          with Cons.prems csp Inr bps
          have "scan m ts st2 (res\<lparr>CSP := CSP res @ cs\<rparr>) = (res', st')" by simp
          from Cons.IH[OF this Cons.prems(2)] show ?thesis by auto
        next
          case bs: (Inr bs)
          with Cons.prems csp Inr bps
          have "scan m ts st2 (res\<lparr>CSP := CSP res @ cs, BPS := BPS res @ bs\<rparr>) = (res', st')"
            by simp
          from Cons.IH[OF this Cons.prems(2)] bps bs show ?thesis by auto
        qed
      qed
    qed
  qed
qed

lemma screen_all_stocks_CSP_member:
  assumes "c \<in> set (CSP (fst (screen_all_stocks m tickers st)))"
  shows "\<exists>s\<in>set tickers. \<exists>st0 cs st1. screen_csp m st0 s = (Inr cs, st1) \<and> c \<in> set cs"
proof -
  obtain res st' where sc: "scan m tickers st \<lparr>CSP = [], BPS = []\<rparr> = (res, st')"
    by (cases "scan m tickers st \<lparr>CSP = [], BPS = []\<rparr>")
  with assms have "c \<in> set (CSP res)"
    by (simp add: screen_all_stocks_def set_sort_descending)
  from scan_CSP_member[OF sc this] show ?thesis by simp
qed

lemma screen_all_stocks_BPS_member:
  assumes "c \<in> set (BPS (fst (screen_all_stocks m tickers st)))"
  shows "\<exists>s\<in>set tickers. \<exists>st0 cs st1.
           screen_bull_put_spread m st0 s = (Inr cs, st1) \<and> c \<in> set cs"
proof -
  obtain res st' where sc: "scan m tickers st \<lparr>CSP = [], BPS = []\<rparr> = (res, st')"
    by (cases "scan m tickers st \<lparr>CSP = [], BPS = []\<rparr>")
  with assms have "c \<in> set (BPS res)"
    by (simp add: screen_all_stocks_def set_sort_descending)
  from scan_BPS_member[OF sc this] show ?thesis by simp
qed

subsection \<open>Sessions\<close>

lemma scan_append:
  "scan m (ts @ us) st res = (case scan m ts st res of (r1, st1) \<Rightarrow> scan m us st1 r1)"
  by (induction ts arbitrary: st res) (auto split: prod.splits sum.splits simp: Let_def)

lemma get_current_price_cong:
  "history_calls st s = history_calls st' s \<Longrightarrow>
     fst (get_current_price m st s) = fst (get_current_price m st' s)"
  by (simp add: get_current_price_def Let_def split: reply.splits)

lemma get_options_chain_cong:
  "options_calls st s = options_calls st' s \<Longrightarrow>
     fst (get_options_chain m st s) = fst (get_options_chain m st' s)"
  by (simp add: get_options_chain_def Let_def split: reply.splits option.splits)

lemma screen_csp_unfold:
  "screen_csp m st s =
     (let st1 = snd (get_current_price m st s) in
      case fst (get_current_price m st s) of
        None \<Rightarrow> (Inr [], st1)
      | Some cp \<Rightarrow>
          if cp = 0 then (Inr [], st1)
          else (let st2 = snd (get_options_chain m st1 s) in
                case fst (get_options_chain m st1 s) of
                  None \<Rightarrow> (Inr [], st2)
                | Some chain \<Rightarrow>
                    if length chain = 0 then (Inr [], st2)
                    else (csp_screen_chain s cp chain, st2)))"
  by (simp add: screen_csp_def Let_def split: prod.splits option.splits)

lemma screen_bull_put_spread_unfold:
  "screen_bull_put_spread m st s =
     (let st1 = snd (get_current_price m st s) in
      case fst (get_current_price m st s) of
        None \<Rightarrow> (Inr [], st1)
      | Some cp \<Rightarrow>
          if cp = 0 then (Inr [], st1)
          else (let st2 = snd (get_options_chain m st1 s) in
                case fst (get_options_chain m st1 s) of
                  None \<Rightarrow> (Inr [], st2)
                | Some chain \<Rightarrow>
                    if length chain = 0 then (Inr [], st2)
                    else (bps_screen_chain (ties m) s cp chain, st2)))"
  by (simp add: screen_bull_put_spread_def Let_def split: prod.splits option.splits)

lemma screen_csp_history_calls:
  "history_calls (snd (screen_csp m st s)) = (history_calls st)(s := Suc (history_calls st s))"
  by (simp add: screen_csp_unfold Let_def get_current_price_session get_options_chain_session
           split: option.splits)

lemma screen_bull_put_spread_history_calls:
  "history_calls (snd (screen_bull_put_spread m st s)) =
     (history_calls st)(s := Suc (history_calls st s))"
  by (simp add: screen_bull_put_spread_unfold Let_def get_current_price_session
                get_options_chain_session split: option.splits)

lemma screen_csp_options_frame:
  "t \<noteq> s \<Longrightarrow> options_calls (snd (screen_csp m st s)) t = options_calls st t"
  by (simp add: screen_csp_unfold Let_def get_current_price_session get_options_chain_session
           split: option.splits)

lemma screen_bull_put_spread_options_frame:
  "t \<noteq> s \<Longrightarrow> options_calls (snd (screen_bull_put_spread m st s)) t = options_calls st t"
  by (simp add: screen_bull_put_spread_unfold Let_def get_current_price_session
                get_options_chain_session split: option.splits)

lemma screen_csp_cong:
  assumes "history_calls st s = history_calls st' s" and "options_calls st s = options_calls st' s"
  shows "fst (screen_csp m st s) = fst (screen_csp m st' s)"
proof -
  have p: "fst (get_current_price m st s) = fst (get_current_price m st' s)"
    using assms(1) by (rule get_current_price_cong)
  have "options_calls (snd (get_current_price m st s)) s =
        options_calls (snd (get_current_price m st' s)) s"
    using assms(2) by (simp add: get_current_price_session)
  then have c: "fst (get_options_chain m (snd (get_current_price m st s)) s) =
             fst (get_options_chain m (snd (get_current_price m st' s)) s)"
    by (rule get_options_chain_cong)
  show ?thesis
    by (simp add: screen_csp_unfold Let_def p c split: option.splits)
qed

lemma screen_bull_put_spread_cong:
  assumes "history_calls st s = history_calls st' s" and "options_calls st s = options_calls st' s"
  shows "fst (screen_bull_put_spread m st s) = fst (screen_bull_put_spread m st' s)"
proof -
  have p: "fst (get_current_price m st s) = fst (get_current_price m st' s)"
    using assms(1) by (rule get_current_price_cong)
  have "options_calls (snd (get_current_price m st s)) s =
        options_calls (snd (get_current_price m st' s)) s"
    using assms(2) by (simp add: get_current_price_session)
  then have c: "fst (get_options_chain m (snd (get_current_price m st s)) s) =
             fst (get_options_chain m (snd (get_current_price m st' s)) s)"
    by (rule get_options_chain_cong)
  show ?thesis
    by (simp add: screen_bull_put_spread_unfold Let_def p c split: option.splits)
qed

text \<open>How many chain requests a screener makes depends on the symbol's own counters only.\<close>

lemma screen_csp_options_cong:
  assumes "history_calls st s = history_calls st' s" and "options_calls st s = options_calls st' s"
  shows "options_calls (snd (screen_csp m st s)) s = options_calls (snd (screen_csp m st' s)) s"
proof -
  have p: "fst (get_current_price m st s) = fst (get_current_price m st' s)"
    using assms(1) by (rule get_current_price_cong)
  have "options_calls (snd (get_current_price m st s)) s =
        options_calls (snd (get_current_price m st' s)) s"
    using assms(2) by (simp add: get_current_price_session)
  then have c: "fst (get_options_chain m (snd (get_current_price m st s)) s) =
             fst (get_options_chain m (snd (get_current_price m st' s)) s)"
    by (rule get_options_chain_cong)
  show ?thesis
    using assms(2)
    by (simp add: screen_csp_unfold Let_def p c get_current_price_session
                  get_options_chain_session split: option.splits)
qed

lemma screen_bull_put_spread_options_cong:
  assumes "history_calls st s = history_calls st' s" and "options_calls st s = options_calls st' s"
  shows "options_calls (snd (screen_bull_put_spread m st s)) s =
         options_calls (snd (screen_bull_put_spread m st' s)) s"
proof -
  have p: "fst (get_current_price m st s) = fst (get_current_price m st' s)"
    using assms(1) by (rule get_current_price_cong)
  have "options_calls (snd (get_current_price m st s)) s =
        options_calls (snd (get_current_price m st' s)) s"
    using assms(2) by (simp add: get_current_price_session)
  then have c: "fst (get_options_chain m (snd (get_current_price m st s)) s) =
             fst (get_options_chain m (snd (get_current_price m st' s)) s)"
    by (rule get_options_chain_cong)
  show ?thesis
    using assms(2)
    by (simp add: screen_bull_put_spread_unfold Let_def p c get_current_price_session
                  get_options_chain_session split: option.splits)
qed

subsection \<open>Scanning symbol by symbol\<close>

lemma scan_step:
  obtains cs bs where
    "fst (screen_csp m st s) = Inr cs"
    "fst (screen_bull_put_spread m (snd (screen_csp m st s)) s) = Inr bs"
    "scan m (s # rest) st res =
       scan m rest (snd (screen_bull_put_spread m (snd (screen_csp m st s)) s))
         (res\<lparr>CSP := CSP res @ cs, BPS := BPS res @ bs\<rparr>)"
proof -
  obtain cs where cs: "fst (screen_csp m st s) = Inr cs"
    using screen_csp_total by blast
  obtain bs where bs: "fst (screen_bull_put_spread m (snd (screen_csp m st s)) s) = Inr bs"
    using screen_bull_put_spread_total by blast
  have "scan m (s # rest) st res =
       scan m rest (snd (screen_bull_put_spread m (snd (screen_csp m st s)) s))
         (res\<lparr>CSP := CSP res @ cs, BPS := BPS res @ bs\<rparr>)"
    using cs bs by (auto split: prod.splits sum.splits simp: Let_def)
  with cs bs show ?thesis by (rule that)
qed

lemma fetch_fails_no_candidates:
  assumes "fst (get_current_price m st x) = None \<or>
           fst (get_options_chain m (snd (get_current_price m st x)) x) = None"
  shows "fst (screen_csp m st x) = Inr []" and "fst (screen_bull_put_spread m st x) = Inr []"
  using assms
  by (auto simp: screen_csp_unfold screen_bull_put_spread_unfold Let_def split: option.splits)

lemma scan_history_calls:
  "history_calls (snd (scan m ts st res)) x = history_calls st x + 2 * count_list ts x"
proof (induction ts arbitrary: st res)
  case Nil
  show ?case by simp
next
  case (Cons s ts)
  obtain cs bs where
    step: "scan m (s # ts) st res =
             scan m ts (snd (screen_bull_put_spread m (snd (screen_csp m st s)) s))
               (res\<lparr>CSP := CSP res @ cs, BPS := BPS res @ bs\<rparr>)"
    by (rule scan_step)
  show ?case
    unfolding step Cons.IH
    by (simp add: screen_csp_history_calls screen_bull_put_spread_history_calls)
qed

subsection \<open>The sample scan\<close>

lemma steady_scan:
  "fst (screen_all_stocks steady_market [''X''] fresh) =
     \<lparr>CSP = [\<lparr>csp_symbol = ''X'', csp_strategy = ''CSP'', csp_current_price = 100,
          csp_strike = 92, csp_short_strike = 92, csp_long_strike = None,
          csp_premium = 92 / 5, csp_bid = 35 / 2, csp_ask = 193 / 10,
          csp_credit = 92 / 5, csp_max_risk = 9200, csp_otm_percent = 8,
          csp_return_on_risk = 20, csp_annualized_return = 1460,
          csp_expiry = 432000000000, csp_expiry_str = ''2026-11-09'',
          csp_dte = 5, csp_volume = 10, csp_open_interest = 50\<rparr>],
      BPS = [\<lparr>bps_symbol = ''X'', bps_strategy = ''BPS'', bps_current_price = 100,
          bps_short_strike = 95, bps_long_strike = 451 / 5,
          bps_short_premium = 21 / 10, bps_long_premium = 3 / 5,
          bps_credit = 3 / 2, bps_spread_width = 24 / 5, bps_max_risk = 330,
          bps_otm_percent = 5, bps_return_on_risk = 125 / 4,
          bps_annualized_return = 9125 / 4, bps_expiry = 432000000000,
          bps_expiry_str = ''2026-11-09'', bps_dte = 5,
          bps_short_volume = 5, bps_long_volume = 5\<rparr>]\<rparr>"
  by code_simp

lemma steady_chain:
  "fst (get_options_chain steady_market fresh ''X'') =
     Some (map in_five_days [leg_b, leg_short, leg_long])"
  by code_simp

subsection \<open>Sorting, the last ticker, and the sample scans\<close>

lemma sort_descending_sorted:
  "sorted_wrt (\<lambda>a b. f b \<le> f a) (sort_descending f xs)"
proof -
  have "sorted (map (\<lambda>x. - f x) (sort_key (\<lambda>x. - f x) xs))" by (rule sorted_sort_key)
  then show ?thesis by (simp add: sort_descending_def sorted_map)
qed

lemma sort_descending_stable:
  "filter (\<lambda>x. f x = k) (sort_descending f xs) = filter (\<lambda>x. f x = k) xs"
proof -
  have "filter (\<lambda>x. - f x = - k) (sort_key (\<lambda>x. - f x) xs) = filter (\<lambda>x. - f x = - k) xs"
    by (rule sort_key_stable)
  then show ?thesis by (simp add: sort_descending_def)
qed

lemma screen_all_stocks_fst:
  "fst (screen_all_stocks m tickers st) =
     \<lparr>CSP = sort_descending csp_annualized_return
              (CSP (fst (scan m tickers st \<lparr>CSP = [], BPS = []\<rparr>))),
      BPS = sort_descending bps_annualized_return
              (BPS (fst (scan m tickers st \<lparr>CSP = [], BPS = []\<rparr>)))\<rparr>"
  by (simp add: screen_all_stocks_def split: prod.splits)

lemma screen_all_stocks_snd:
  "snd (screen_all_stocks m tickers st) = snd (scan m tickers st \<lparr>CSP = [], BPS = []\<rparr>)"
  by (simp add: screen_all_stocks_def split: prod.splits)

lemma scan_snoc:
  "\<exists>cs bs.
     fst (screen_csp m (snd (scan m ts st res)) s) = Inr cs \<and>
     fst (screen_bull_put_spread m (snd (screen_csp m (snd (scan m ts st res)) s)) s) = Inr bs \<and>
     CSP (fst (scan m (ts @ [s]) st res)) = CSP (fst (scan m ts st res)) @ cs \<and>
     BPS (fst (scan m (ts @ [s]) st res)) = BPS (fst (scan m ts st res)) @ bs"
proof -
  obtain r1 st1 where r: "scan m ts st res = (r1, st1)" by (cases "scan m ts st res")
  obtain cs bs where
    cs: "fst (screen_csp m st1 s) = Inr cs" and
    bs: "fst (screen_bull_put_spread m (snd (screen_csp m st1 s)) s) = Inr bs" and
    step: "scan m (s # []) st1 r1 =
             scan m [] (snd (screen_bull_put_spread m (snd (screen_csp m st1 s)) s))
               (r1\<lparr>CSP := CSP r1 @ cs, BPS := BPS r1 @ bs\<rparr>)"
    by (rule scan_step)
  have "scan m (ts @ [s]) st res = scan m [s] st1 r1" by (simp add: scan_append r)
  with step have "fst (scan m (ts @ [s]) st res) = r1\<lparr>CSP := CSP r1 @ cs, BPS := BPS r1 @ bs\<rparr>"
    by simp
  with cs bs r show ?thesis by simp
qed

lemma ranked_scan:
  "map (\<lambda>c. (csp_symbol c, csp_annualized_return c))
     (CSP (fst (scan ranked_market [''X'', ''Y'', ''Z''] fresh \<lparr>CSP = [], BPS = []\<rparr>))) =
     [(''X'', 1460), (''Y'', 7300), (''Z'', 7300)] \<and>
   map (\<lambda>c. (csp_symbol c, csp_annualized_return c))
     (CSP (fst (screen_all_stocks ranked_market [''X'', ''Y'', ''Z''] fresh))) =
     [(''Y'', 7300), (''Z'', 7300), (''X'', 1460)]"
  by code_simp

subsection \<open>The long leg of a sorted group\<close>











subsection \<open>One symbol among the others\<close>

lemma screen_csp_symbol:
  assumes "fst (screen_csp m st s) = Inr cs" and "c \<in> set cs"
  shows "csp_symbol c = s"
proof -
  from assms(1) have "screen_csp m st s = (Inr cs, snd (screen_csp m st s))"
    by (simp add: prod_eq_iff)
  from screen_csp_member[OF this assms(2)] obtain row zs where
    "csp_row s (csp_current_price c) row = Inr zs" "c \<in> set zs" by blast
  from csp_row_member[OF this] show ?thesis by simp
qed

lemma screen_bull_put_spread_symbol:
  assumes "fst (screen_bull_put_spread m st s) = Inr cs" and "c \<in> set cs"
  shows "bps_symbol c = s"
proof -
  from assms(1) have "screen_bull_put_spread m st s =
      (Inr cs, snd (screen_bull_put_spread m st s))"
    by (simp add: prod_eq_iff)
  from screen_bull_put_spread_member[OF this assms(2)] obtain sr l zs where
    "bps_pair s (bps_current_price c) sr l = Inr zs" "c \<in> set zs" by blast
  from bps_pair_member[OF this] show ?thesis by simp
qed

text \<open>What a scan collects for the other symbols does not depend on a symbol.\<close>

lemma scan_others:
  assumes agree: "\<And>t. t \<noteq> x \<Longrightarrow> history_calls st t = history_calls st' t \<and>
                                 options_calls st t = options_calls st' t"
    and res: "CSP res' = filter (\<lambda>c. csp_symbol c \<noteq> x) (CSP res)"
             "BPS res' = filter (\<lambda>c. bps_symbol c \<noteq> x) (BPS res)"
  shows "CSP (fst (scan m (filter (\<lambda>s. s \<noteq> x) ts) st' res')) =
           filter (\<lambda>c. csp_symbol c \<noteq> x) (CSP (fst (scan m ts st res))) \<and>
         BPS (fst (scan m (filter (\<lambda>s. s \<noteq> x) ts) st' res')) =
           filter (\<lambda>c. bps_symbol c \<noteq> x) (BPS (fst (scan m ts st res)))"
  using agree res
proof (induction ts arbitrary: st st' res res')
  case Nil
  then show ?case by simp
next
  case (Cons s ts)
  let ?st1 = "snd (screen_csp m st s)"
  let ?st2 = "snd (screen_bull_put_spread m ?st1 s)"
  obtain cs bs where
    cs: "fst (screen_csp m st s) = Inr cs" and
    bs: "fst (screen_bull_put_spread m ?st1 s) = Inr bs" and
    step: "scan m (s # ts) st res = scan m ts ?st2 (res\<lparr>CSP := CSP res @ cs, BPS := BPS res @ bs\<rparr>)"
    by (rule scan_step)
  have csym: "\<forall>c\<in>set cs. csp_symbol c = s" using cs screen_csp_symbol by blast
  have bsym: "\<forall>c\<in>set bs. bps_symbol c = s" using bs screen_bull_put_spread_symbol by blast
  show ?case
  proof (cases "s = x")
    case True
    have a: "\<And>t. t \<noteq> x \<Longrightarrow> history_calls ?st2 t = history_calls st' t \<and>
                          options_calls ?st2 t = options_calls st' t"
      using Cons.prems(1) True
      by (simp add: screen_csp_history_calls screen_bull_put_spread_history_calls
                    screen_csp_options_frame screen_bull_put_spread_options_frame)
    from csym True have "filter (\<lambda>c. csp_symbol c \<noteq> x) cs = []" by (simp add: filter_empty_conv)
    with Cons.prems(2) have r1: "CSP res' = filter (\<lambda>c. csp_symbol c \<noteq> x)
        (CSP (res\<lparr>CSP := CSP res @ cs, BPS := BPS res @ bs\<rparr>))" by simp
    from bsym True have "filter (\<lambda>c. bps_symbol c \<noteq> x) bs = []" by (simp add: filter_empty_conv)
    with Cons.prems(3) have r2: "BPS res' = filter (\<lambda>c. bps_symbol c \<noteq> x)
        (BPS (res\<lparr>CSP := CSP res @ cs, BPS := BPS res @ bs\<rparr>))" by simp
    from Cons.IH[OF a r1 r2] step True show ?thesis by simp
  next
    case False
    let ?st1' = "snd (screen_csp m st' s)"
    let ?st2' = "snd (screen_bull_put_spread m ?st1' s)"
    obtain cs' bs' where
      cs': "fst (screen_csp m st' s) = Inr cs'" and
      bs': "fst (screen_bull_put_spread m ?st1' s) = Inr bs'" and
      step': "scan m (s # filter (\<lambda>s. s \<noteq> x) ts) st' res' =
                scan m (filter (\<lambda>s. s \<noteq> x) ts) ?st2'
                  (res'\<lparr>CSP := CSP res' @ cs', BPS := BPS res' @ bs'\<rparr>)"
      by (rule scan_step)
    have h0: "history_calls st s = history_calls st' s" "options_calls st s = options_calls st' s"
      using Cons.prems(1) False by simp_all
    have "fst (screen_csp m st s) = fst (screen_csp m st' s)"
      using h0 by (rule screen_csp_cong)
    with cs cs' have ceq: "cs' = cs" by simp
    have h1: "history_calls ?st1 s = history_calls ?st1' s"
      using h0 by (simp add: screen_csp_history_calls)
    have o1: "options_calls ?st1 s = options_calls ?st1' s"
      using h0 by (rule screen_csp_options_cong)
    have "fst (screen_bull_put_spread m ?st1 s) = fst (screen_bull_put_spread m ?st1' s)"
      using h1 o1 by (rule screen_bull_put_spread_cong)
    with bs bs' have beq: "bs' = bs" by simp
    have o2: "options_calls ?st2 s = options_calls ?st2' s"
      using h1 o1 by (rule screen_bull_put_spread_options_cong)
    have a: "\<And>t. t \<noteq> x \<Longrightarrow> history_calls ?st2 t = history_calls ?st2' t \<and>
                          options_calls ?st2 t = options_calls ?st2' t"
    proof -
      fix t assume "t \<noteq> x"
      with Cons.prems(1) have a: "history_calls st t = history_calls st' t"
        "options_calls st t = options_calls st' t" by simp_all
      show "history_calls ?st2 t = history_calls ?st2' t \<and>
            options_calls ?st2 t = options_calls ?st2' t"
      proof (cases "t = s")
        case True
        with o2 h0 show ?thesis
          by (simp add: screen_csp_history_calls screen_bull_put_spread_history_calls)
      next
        case False
        with a show ?thesis
          by (simp add: screen_csp_history_calls screen_bull_put_spread_history_calls
                        screen_csp_options_frame screen_bull_put_spread_options_frame)
      qed
    qed
    from csym False have "filter (\<lambda>c. csp_symbol c \<noteq> x) cs = cs" by (simp add: filter_id_conv)
    with Cons.prems(2) have r1:
      "CSP (res'\<lparr>CSP := CSP res' @ cs, BPS := BPS res' @ bs\<rparr>) =
         filter (\<lambda>c. csp_symbol c \<noteq> x) (CSP (res\<lparr>CSP := CSP res @ cs, BPS := BPS res @ bs\<rparr>))"
      by simp
    from bsym False have "filter (\<lambda>c. bps_symbol c \<noteq> x) bs = bs" by (simp add: filter_id_conv)
    with Cons.prems(3) have r2:
      "BPS (res'\<lparr>CSP := CSP res' @ cs, BPS := BPS res' @ bs\<rparr>) =
         filter (\<lambda>c. bps_symbol c \<noteq> x) (BPS (res\<lparr>CSP := CSP res @ cs, BPS := BPS res @ bs\<rparr>))"
      by simp
    from Cons.IH[OF a r1 r2] step step' False ceq beq show ?thesis by simp
  qed
qed

lemma filter_sort_descending:
  "filter P (sort_descending f xs) = sort_descending f (filter P xs)"
  by (simp add: sort_descending_def filter_sort)

lemma screen_all_stocks_others:
  "filter (\<lambda>c. csp_symbol c \<noteq> x) (CSP (fst (screen_all_stocks m tickers st))) =
     CSP (fst (screen_all_stocks m (filter (\<lambda>s. s \<noteq> x) tickers) st)) \<and>
   filter (\<lambda>c. bps_symbol c \<noteq> x) (BPS (fst (screen_all_stocks m tickers st))) =
     BPS (fst (screen_all_stocks m (filter (\<lambda>s. s \<noteq> x) tickers) st))"
proof -
  have "CSP (fst (scan m (filter (\<lambda>s. s \<noteq> x) tickers) st \<lparr>CSP = [], BPS = []\<rparr>)) =
           filter (\<lambda>c. csp_symbol c \<noteq> x) (CSP (fst (scan m tickers st \<lparr>CSP = [], BPS = []\<rparr>))) \<and>
         BPS (fst (scan m (filter (\<lambda>s. s \<noteq> x) tickers) st \<lparr>CSP = [], BPS = []\<rparr>)) =
           filter (\<lambda>c. bps_symbol c \<noteq> x) (BPS (fst (scan m tickers st \<lparr>CSP = [], BPS = []\<rparr>)))"
    by (rule scan_others) simp_all
  then show ?thesis
    by (simp add: screen_all_stocks_fst filter_sort_descending)
qed

text \<open>The session after a scan does not depend on the candidates collected before it.\<close>

lemma scan_session:
  "snd (scan m ts st res) = snd (scan m ts st res')"
proof (induction ts arbitrary: st res res')
  case Nil
  show ?case by simp
next
  case (Cons s ts)
  obtain cs bs where
    "scan m (s # ts) st res =
       scan m ts (snd (screen_bull_put_spread m (snd (screen_csp m st s)) s))
         (res\<lparr>CSP := CSP res @ cs, BPS := BPS res @ bs\<rparr>)"
    by (rule scan_step)
  moreover obtain cs' bs' where
    "scan m (s # ts) st res' =
       scan m ts (snd (screen_bull_put_spread m (snd (screen_csp m st s)) s))
         (res'\<lparr>CSP := CSP res' @ cs', BPS := BPS res' @ bs'\<rparr>)"
    by (rule scan_step)
  ultimately show ?case using Cons.IH by simp
qed

text \<open>
  A symbol has no put in the result when the fetches of each of its put screenings fail,
  and no spread when the fetches of each of its spread screenings fail.
\<close>

lemma scan_no_candidates:
  "(\<forall>ts' rest. ts = ts' @ x # rest \<longrightarrow> fetch_fails m (snd (scan m ts' st res)) x) \<longrightarrow>
     (\<forall>c\<in>set (CSP (fst (scan m ts st res))). csp_symbol c = x \<longrightarrow> c \<in> set (CSP res))"
  "(\<forall>ts' rest. ts = ts' @ x # rest \<longrightarrow>
       fetch_fails m (snd (screen_csp m (snd (scan m ts' st res)) x)) x) \<longrightarrow>
     (\<forall>c\<in>set (BPS (fst (scan m ts st res))). bps_symbol c = x \<longrightarrow> c \<in> set (BPS res))"
proof (induction ts rule: rev_induct)
  case Nil
  { case 1 show ?case by simp }
  { case 2 show ?case by simp }
next
  case (snoc s ts)
  obtain cs bs where
    cs: "fst (screen_csp m (snd (scan m ts st res)) s) = Inr cs" and
    bs: "fst (screen_bull_put_spread m (snd (screen_csp m (snd (scan m ts st res)) s)) s) = Inr bs" and
    C: "CSP (fst (scan m (ts @ [s]) st res)) = CSP (fst (scan m ts st res)) @ cs" and
    B: "BPS (fst (scan m (ts @ [s]) st res)) = BPS (fst (scan m ts st res)) @ bs"
    using scan_snoc[of m ts st res s] by blast
  {
    case 1
    show ?case
    proof (intro impI ballI)
      fix c
      assume h: "\<forall>ts' rest. ts @ [s] = ts' @ x # rest \<longrightarrow> fetch_fails m (snd (scan m ts' st res)) x"
        and c: "c \<in> set (CSP (fst (scan m (ts @ [s]) st res)))" and x: "csp_symbol c = x"
      from h have h': "\<forall>ts' rest. ts = ts' @ x # rest \<longrightarrow> fetch_fails m (snd (scan m ts' st res)) x"
        by (metis append.assoc append_Cons)
      from c C have "c \<in> set (CSP (fst (scan m ts st res))) \<or> c \<in> set cs" by simp
      then show "c \<in> set (CSP res)"
      proof
        assume "c \<in> set (CSP (fst (scan m ts st res)))"
        with snoc.IH(1) h' x show ?thesis by blast
      next
        assume cc: "c \<in> set cs"
        with cs x have sx: "s = x" using screen_csp_symbol by blast
        with h have "fetch_fails m (snd (scan m ts st res)) x" by blast
        then have "fst (screen_csp m (snd (scan m ts st res)) x) = Inr []"
          unfolding fetch_fails_def by (rule fetch_fails_no_candidates)
        with cs sx cc show ?thesis by simp
      qed
    qed
  }
  {
    case 2
    show ?case
    proof (intro impI ballI)
      fix c
      assume h: "\<forall>ts' rest. ts @ [s] = ts' @ x # rest \<longrightarrow>
                   fetch_fails m (snd (screen_csp m (snd (scan m ts' st res)) x)) x"
        and c: "c \<in> set (BPS (fst (scan m (ts @ [s]) st res)))" and x: "bps_symbol c = x"
      from h have h': "\<forall>ts' rest. ts = ts' @ x # rest \<longrightarrow>
                   fetch_fails m (snd (screen_csp m (snd (scan m ts' st res)) x)) x"
        by (metis append.assoc append_Cons)
      from c B have "c \<in> set (BPS (fst (scan m ts st res))) \<or> c \<in> set bs" by simp
      then show "c \<in> set (BPS res)"
      proof
        assume "c \<in> set (BPS (fst (scan m ts st res)))"
        with snoc.IH(2) h' x show ?thesis by blast
      next
        assume cc: "c \<in> set bs"
        with bs x have sx: "s = x" using screen_bull_put_spread_symbol by blast
        with h have "fetch_fails m (snd (screen_csp m (snd (scan m ts st res)) x)) x" by blast
        then have "fst (screen_bull_put_spread m (snd (screen_csp m (snd (scan m ts st res)) x)) x)
                     = Inr []"
          unfolding fetch_fails_def by (rule fetch_fails_no_candidates)
        with bs sx cc show ?thesis by simp
      qed
    qed
  }
qed

lemma scan_with_raise:
  "fst (csp st s) = Inl e \<Longrightarrow>
     scan_with csp bps (s # ts) st res = scan_with csp bps ts (snd (csp st s)) res"
  "fst (csp st s) = Inr cs \<Longrightarrow> fst (bps (snd (csp st s)) s) = Inl e \<Longrightarrow>
     scan_with csp bps (s # ts) st res =
       scan_with csp bps ts (snd (bps (snd (csp st s)) s)) (res\<lparr>CSP := CSP res @ cs\<rparr>)"
  "fst (csp st s) = Inr cs \<Longrightarrow> fst (bps (snd (csp st s)) s) = Inr bs \<Longrightarrow>
     scan_with csp bps (s # ts) st res =
       scan_with csp bps ts (snd (bps (snd (csp st s)) s))
         (res\<lparr>CSP := CSP res @ cs, BPS := BPS res @ bs\<rparr>)"
  by (auto split: prod.splits sum.splits simp: Let_def)

lemma raising_scans:
  "map csp_symbol (CSP (fst (scan_with (screen_csp steady_market) (raising_bps steady_market)
      [''X'', ''Y'', ''Z''] fresh \<lparr>CSP = [], BPS = []\<rparr>))) = [''X'', ''Y'', ''Z''] \<and>
   map bps_symbol (BPS (fst (scan_with (screen_csp steady_market) (raising_bps steady_market)
      [''X'', ''Y'', ''Z''] fresh \<lparr>CSP = [], BPS = []\<rparr>))) = [''X'', ''Z''] \<and>
   map csp_symbol (CSP (fst (scan_with (raising_csp steady_market)
      (screen_bull_put_spread steady_market)
      [''X'', ''Y'', ''Z''] fresh \<lparr>CSP = [], BPS = []\<rparr>))) = [''X'', ''Z''] \<and>
   map bps_symbol (BPS (fst (scan_with (raising_csp steady_market)
      (screen_bull_put_spread steady_market)
      [''X'', ''Y'', ''Z''] fresh \<lparr>CSP = [], BPS = []\<rparr>))) = [''X'', ''Z'']"
  by code_simp

lemma late_scan:
  "map csp_symbol (CSP (fst (screen_all_stocks late_market [''X'', ''Y'', ''Z''] fresh))) =
     [''X'', ''Z''] \<and>
   map bps_symbol (BPS (fst (screen_all_stocks late_market [''X'', ''Y'', ''Z''] fresh))) =
     [''X'', ''Z''] \<and>
   map csp_symbol (CSP (fst (screen_all_stocks late_market [''X'', ''Z''] fresh))) =
     [''X'', ''Z''] \<and>
   map csp_symbol (CSP (fst (screen_all_stocks late_market [''X'', ''Y'', ''Z'', ''Y''] fresh))) =
     [''X'', ''Z'', ''Y''] \<and>
   fetch_fails late_market (snd (scan late_market [''X''] fresh \<lparr>CSP = [], BPS = []\<rparr>)) ''Y'' \<and>
   fetch_fails late_market
     (snd (screen_csp late_market (snd (scan late_market [''X''] fresh \<lparr>CSP = [], BPS = []\<rparr>))
        ''Y'')) ''Y''"
  unfolding scan_def by code_simp

lemma flaky_scan:
  "map csp_symbol (CSP (fst (screen_all_stocks flaky_market [''X''] fresh))) = [''X''] \<and>
   BPS (fst (screen_all_stocks flaky_market [''X''] fresh)) = [] \<and>
   fetch_fails flaky_market (snd (screen_csp flaky_market fresh ''X'')) ''X''"
  by code_simp

subsection \<open>The matcher in exact and in double arithmetic\<close>

lemma exact_pair:
  "bps_pair_rounded (\<lambda>x. x) symbol current_price short_row long_row =
     bps_pair symbol current_price short_row long_row"
  unfolding bps_pair_rounded_def bps_pair_def truediv_rounded_def truediv_def
    net_credit_of_def actual_width_of_def max_risk_of_def premium_of_def Let_def
  by (rule refl)

lemma exact_short_row:
  "bps_short_row_rounded (\<lambda>x. x) symbol current_price expiry_chain short_row =
     bps_short_row symbol current_price expiry_chain short_row"
  unfolding bps_short_row_rounded_def bps_short_row_def long_options_rounded_def
    long_options_def exact_pair Let_def
  by (rule refl)

lemma doubles_of_decimals:
  "binary64 (1/10) = 3602879701896397 / 36028797018963968 \<and>
   binary64 (451/5) = 6347260724825293 / 70368744177664 \<and>
   binary64 (11/5) = 2476979795053773 / 1125899906842624 \<and>
   binary64 (7/10) = 3152519739159347 / 4503599627370496 \<and>
   binary64 95 = 95 \<and> binary64 (1/2) = 1/2 \<and> binary64 (- (1/10)) = - binary64 (1/10) \<and>
   binary64 (24/5) = 5404319552844595 / 1125899906842624"
  by code_simp

section \<open>The claims\<close>

text \<open>
  C1. Every candidate of a scan has its strike (CSP) or its short strike (BPS) within
  \<open>[spot * (1 - MAX_OTM_PERCENT / 100), spot * (1 - MIN_OTM_PERCENT / 100)]\<close>, where
  spot is the candidate's current price: the last close of a price request answered for
  that candidate's symbol.
\<close>

theorem strike_window:
  "(\<forall>c\<in>set (CSP (fst (screen_all_stocks m tickers st))).
      csp_current_price c * (1 - MAX_OTM_PERCENT / 100) \<le> csp_strike c \<and>
      csp_strike c \<le> csp_current_price c * (1 - MIN_OTM_PERCENT / 100) \<and>
      csp_short_strike c = csp_strike c \<and>
      (\<exists>n closes. history m (csp_symbol c) n = Returns closes \<and> closes \<noteq> [] \<and>
         csp_current_price c = last closes)) \<and>
   (\<forall>c\<in>set (BPS (fst (screen_all_stocks m tickers st))).
      bps_current_price c * (1 - MAX_OTM_PERCENT / 100) \<le> bps_short_strike c \<and>
      bps_short_strike c \<le> bps_current_price c * (1 - MIN_OTM_PERCENT / 100) \<and>
      (\<exists>n closes. history m (bps_symbol c) n = Returns closes \<and> closes \<noteq> [] \<and>
         bps_current_price c = last closes))"
proof (rule conjI; rule ballI)
  fix c assume "c \<in> set (CSP (fst (screen_all_stocks m tickers st)))"
  then obtain s st0 cs st1 where
    s: "screen_csp m st0 s = (Inr cs, st1)" "c \<in> set cs"
    using screen_all_stocks_CSP_member by blast
  from screen_csp_member[OF s] obtain row zs st2 where
    p: "get_current_price m st0 s = (Some (csp_current_price c), st2)" and
    r: "csp_row s (csp_current_price c) row = Inr zs" "c \<in> set zs" and
    w: "csp_current_price c * (1 - MAX_OTM_PERCENT / 100) \<le> strike row"
       "strike row \<le> csp_current_price c * (1 - MIN_OTM_PERCENT / 100)"
    by blast
  from csp_row_member[OF r] have
    f: "csp_strike c = strike row" "csp_short_strike c = strike row" "csp_symbol c = s"
    by simp_all
  from get_current_price_Some[OF p] f(3) have
    "\<exists>n closes. history m (csp_symbol c) n = Returns closes \<and> closes \<noteq> [] \<and>
       csp_current_price c = last closes" by blast
  with w f show
    "csp_current_price c * (1 - MAX_OTM_PERCENT / 100) \<le> csp_strike c \<and>
      csp_strike c \<le> csp_current_price c * (1 - MIN_OTM_PERCENT / 100) \<and>
      csp_short_strike c = csp_strike c \<and>
      (\<exists>n closes. history m (csp_symbol c) n = Returns closes \<and> closes \<noteq> [] \<and>
         csp_current_price c = last closes)" by simp
next
  fix c assume "c \<in> set (BPS (fst (screen_all_stocks m tickers st)))"
  then obtain s st0 cs st1 where
    s: "screen_bull_put_spread m st0 s = (Inr cs, st1)" "c \<in> set cs"
    using screen_all_stocks_BPS_member by blast
  from screen_bull_put_spread_member[OF s] obtain sr l zs st2 where
    p: "get_current_price m st0 s = (Some (bps_current_price c), st2)" and
    r: "bps_pair s (bps_current_price c) sr l = Inr zs" "c \<in> set zs" and
    w: "bps_current_price c * (1 - MAX_OTM_PERCENT / 100) \<le> strike sr"
       "strike sr \<le> bps_current_price c * (1 - MIN_OTM_PERCENT / 100)"
    by blast
  from bps_pair_member[OF r] have
    f: "bps_short_strike c = strike sr" "bps_symbol c = s" by simp_all
  from get_current_price_Some[OF p] f(2) have
    "\<exists>n closes. history m (bps_symbol c) n = Returns closes \<and> closes \<noteq> [] \<and>
       bps_current_price c = last closes" by blast
  with w f show
    "bps_current_price c * (1 - MAX_OTM_PERCENT / 100) \<le> bps_short_strike c \<and>
      bps_short_strike c \<le> bps_current_price c * (1 - MIN_OTM_PERCENT / 100) \<and>
      (\<exists>n closes. history m (bps_symbol c) n = Returns closes \<and> closes \<noteq> [] \<and>
         bps_current_price c = last closes)" by simp
qed

theorem strike_window_witness:
  "map csp_strike (CSP (fst (screen_all_stocks steady_market [''X''] fresh))) = [92] \<and>
   map bps_short_strike (BPS (fst (screen_all_stocks steady_market [''X''] fresh))) = [95] \<and>
   list_all (\<lambda>c. 100 * (1 - MAX_OTM_PERCENT / 100) \<le> csp_strike c \<and>
                  csp_strike c \<le> 100 * (1 - MIN_OTM_PERCENT / 100))
     (CSP (fst (screen_all_stocks steady_market [''X''] fresh))) \<and>
   list_all (\<lambda>c. 100 * (1 - MAX_OTM_PERCENT / 100) \<le> bps_short_strike c \<and>
                  bps_short_strike c \<le> 100 * (1 - MIN_OTM_PERCENT / 100))
     (BPS (fst (screen_all_stocks steady_market [''X''] fresh)))"
  using strike_window [of steady_market "[''X'']" fresh]
  unfolding steady_scan by simp

text \<open>
  C2. Every spread of a scan has its long strike below its short strike, a positive net
  credit and a positive maximal risk, and a width (short strike minus long strike) within
  0.50 of SPREAD\_WIDTH.
\<close>

theorem spread_validity:
  "\<forall>c\<in>set (BPS (fst (screen_all_stocks m tickers st))).
      bps_long_strike c < bps_short_strike c \<and> 0 < bps_credit c \<and> 0 < bps_max_risk c \<and>
      bps_spread_width c = bps_short_strike c - bps_long_strike c \<and>
      \<bar>bps_short_strike c - bps_long_strike c - SPREAD_WIDTH\<bar> \<le> 1/2"
proof
  fix c assume "c \<in> set (BPS (fst (screen_all_stocks m tickers st)))"
  then obtain s st0 cs st1 where
    s: "screen_bull_put_spread m st0 s = (Inr cs, st1)" "c \<in> set cs"
    using screen_all_stocks_BPS_member by blast
  from screen_bull_put_spread_member[OF s] obtain sr l zs where
    r: "bps_pair s (bps_current_price c) sr l = Inr zs" "c \<in> set zs" and
    w: "strike sr - SPREAD_WIDTH - 1/2 \<le> strike l" "strike l \<le> strike sr - SPREAD_WIDTH + 1/2"
    by blast
  from bps_pair_member[OF r] have
    f: "bps_short_strike c = strike sr" "bps_long_strike c = strike l"
       "bps_credit c = net_credit_of sr l" "bps_spread_width c = actual_width_of sr l"
       "bps_max_risk c = max_risk_of sr l" and
    g: "0 < net_credit_of sr l" "0 < max_risk_of sr l" by simp_all
  from g have "\<not> (max_risk_of sr l \<le> 0 \<or> net_credit_of sr l \<le> 0)" by simp
  then have "0 < actual_width_of sr l" by (rule guard_width_positive)
  then have "strike l < strike sr" by (simp add: actual_width_of_def)
  moreover from w have "\<bar>strike sr - strike l - SPREAD_WIDTH\<bar> \<le> 1/2" by linarith
  ultimately show
    "bps_long_strike c < bps_short_strike c \<and> 0 < bps_credit c \<and> 0 < bps_max_risk c \<and>
      bps_spread_width c = bps_short_strike c - bps_long_strike c \<and>
      \<bar>bps_short_strike c - bps_long_strike c - SPREAD_WIDTH\<bar> \<le> 1/2"
    using f g by (simp add: actual_width_of_def)
qed

theorem spread_validity_witness:
  "map (\<lambda>c. (bps_long_strike c, bps_short_strike c, bps_credit c, bps_max_risk c))
     (BPS (fst (screen_all_stocks steady_market [''X''] fresh))) = [(451/5, 95, 3/2, 330)] \<and>
   list_all (\<lambda>c. bps_long_strike c < bps_short_strike c \<and> 0 < bps_credit c \<and>
                  0 < bps_max_risk c \<and>
                  \<bar>bps_short_strike c - bps_long_strike c - SPREAD_WIDTH\<bar> \<le> 1/2)
     (BPS (fst (screen_all_stocks steady_market [''X''] fresh)))"
  using spread_validity [of steady_market "[''X'']" fresh]
  unfolding steady_scan by simp




text \<open>
  C4, as amended. What a scan yields for the other symbols is what it yields without the
  symbol, whatever happens to the symbol. A screener whose price or chain fetch fails
  yields nothing. A symbol has no put in the result when the fetches of every put
  screening of it in the scan fail, and no spread when the fetches of every spread
  screening of it fail. In the loop, for any two screeners: when the put screener raises,
  the symbol adds nothing; when the spread screener raises, the puts of the symbol stay
  and it adds no spread; either way the loop goes on with the next symbol and keeps what
  it has collected. The screeners of the code never raise.
\<close>

theorem isolation:
  "filter (\<lambda>c. csp_symbol c \<noteq> x) (CSP (fst (screen_all_stocks m tickers st))) =
     CSP (fst (screen_all_stocks m (filter (\<lambda>s. s \<noteq> x) tickers) st)) \<and>
   filter (\<lambda>c. bps_symbol c \<noteq> x) (BPS (fst (screen_all_stocks m tickers st))) =
     BPS (fst (screen_all_stocks m (filter (\<lambda>s. s \<noteq> x) tickers) st)) \<and>
   (fetch_fails m st s \<longrightarrow>
      fst (screen_csp m st s) = Inr [] \<and> fst (screen_bull_put_spread m st s) = Inr []) \<and>
   ((\<forall>before after. tickers = before @ x # after \<longrightarrow>
        fetch_fails m (snd (scan m before st \<lparr>CSP = [], BPS = []\<rparr>)) x) \<longrightarrow>
      (\<forall>c\<in>set (CSP (fst (screen_all_stocks m tickers st))). csp_symbol c \<noteq> x)) \<and>
   ((\<forall>before after. tickers = before @ x # after \<longrightarrow>
        fetch_fails m
          (snd (screen_csp m (snd (scan m before st \<lparr>CSP = [], BPS = []\<rparr>)) x)) x) \<longrightarrow>
      (\<forall>c\<in>set (BPS (fst (screen_all_stocks m tickers st))). bps_symbol c \<noteq> x)) \<and>
   (fst (csp st s) = Inl e \<longrightarrow>
      scan_with csp bps (s # rest) st res = scan_with csp bps rest (snd (csp st s)) res) \<and>
   (fst (csp st s) = Inr cs \<and> fst (bps (snd (csp st s)) s) = Inl e \<longrightarrow>
      scan_with csp bps (s # rest) st res =
        scan_with csp bps rest (snd (bps (snd (csp st s)) s)) (res\<lparr>CSP := CSP res @ cs\<rparr>)) \<and>
   (fst (csp st s) = Inr cs \<and> fst (bps (snd (csp st s)) s) = Inr bs \<longrightarrow>
      scan_with csp bps (s # rest) st res =
        scan_with csp bps rest (snd (bps (snd (csp st s)) s))
          (res\<lparr>CSP := CSP res @ cs, BPS := BPS res @ bs\<rparr>)) \<and>
   scan m = scan_with (screen_csp m) (screen_bull_put_spread m) \<and>
   (\<exists>cs. fst (screen_csp m st s) = Inr cs) \<and>
   (\<exists>bs. fst (screen_bull_put_spread m st s) = Inr bs)"
proof -
  have own: "fetch_fails m st s \<longrightarrow>
      fst (screen_csp m st s) = Inr [] \<and> fst (screen_bull_put_spread m st s) = Inr []"
    unfolding fetch_fails_def by (simp add: fetch_fails_no_candidates)
  have nocsp: "(\<forall>before after. tickers = before @ x # after \<longrightarrow>
        fetch_fails m (snd (scan m before st \<lparr>CSP = [], BPS = []\<rparr>)) x) \<longrightarrow>
      (\<forall>c\<in>set (CSP (fst (screen_all_stocks m tickers st))). csp_symbol c \<noteq> x)"
    using scan_no_candidates(1)[of tickers x m st "\<lparr>CSP = [], BPS = []\<rparr>"]
    by (auto simp: screen_all_stocks_fst set_sort_descending)
  have nobps: "(\<forall>before after. tickers = before @ x # after \<longrightarrow>
        fetch_fails m
          (snd (screen_csp m (snd (scan m before st \<lparr>CSP = [], BPS = []\<rparr>)) x)) x) \<longrightarrow>
      (\<forall>c\<in>set (BPS (fst (screen_all_stocks m tickers st))). bps_symbol c \<noteq> x)"
    using scan_no_candidates(2)[of tickers x m st "\<lparr>CSP = [], BPS = []\<rparr>"]
    by (auto simp: screen_all_stocks_fst set_sort_descending)
  have r1: "fst (csp st s) = Inl e \<longrightarrow>
      scan_with csp bps (s # rest) st res = scan_with csp bps rest (snd (csp st s)) res"
    using scan_with_raise(1) by blast
  have r2: "fst (csp st s) = Inr cs \<and> fst (bps (snd (csp st s)) s) = Inl e \<longrightarrow>
      scan_with csp bps (s # rest) st res =
        scan_with csp bps rest (snd (bps (snd (csp st s)) s)) (res\<lparr>CSP := CSP res @ cs\<rparr>)"
    using scan_with_raise(2) by blast
  have r3: "fst (csp st s) = Inr cs \<and> fst (bps (snd (csp st s)) s) = Inr bs \<longrightarrow>
      scan_with csp bps (s # rest) st res =
        scan_with csp bps rest (snd (bps (snd (csp st s)) s))
          (res\<lparr>CSP := CSP res @ cs, BPS := BPS res @ bs\<rparr>)"
    using scan_with_raise(3) by blast
  from screen_all_stocks_others[of x m tickers st] own nocsp nobps r1 r2 r3 scan_def[of m]
    screen_csp_total[of m st s] screen_bull_put_spread_total[of m st s]
  show ?thesis by (intro conjI) blast+
qed

theorem isolation_witness:
  "map csp_symbol (CSP (fst (screen_all_stocks late_market [''X'', ''Y'', ''Z''] fresh))) =
     [''X'', ''Z''] \<and>
   map bps_symbol (BPS (fst (screen_all_stocks late_market [''X'', ''Y'', ''Z''] fresh))) =
     [''X'', ''Z''] \<and>
   list_all (\<lambda>c. csp_symbol c \<noteq> ''Y'')
     (CSP (fst (screen_all_stocks late_market [''X'', ''Y'', ''Z''] fresh))) \<and>
   list_all (\<lambda>c. bps_symbol c \<noteq> ''Y'')
     (BPS (fst (screen_all_stocks late_market [''X'', ''Y'', ''Z''] fresh))) \<and>
   map csp_symbol (CSP (fst (screen_all_stocks late_market [''X'', ''Y'', ''Z'', ''Y''] fresh))) =
     [''X'', ''Z'', ''Y''] \<and>
   filter (\<lambda>c. csp_symbol c \<noteq> ''Y'')
     (CSP (fst (screen_all_stocks late_market [''X'', ''Y'', ''Z'', ''Y''] fresh))) =
     CSP (fst (screen_all_stocks late_market [''X'', ''Z''] fresh)) \<and>
   map csp_symbol (CSP (fst (screen_all_stocks flaky_market [''X''] fresh))) = [''X''] \<and>
   list_all (\<lambda>c. bps_symbol c \<noteq> ''X'')
     (BPS (fst (screen_all_stocks flaky_market [''X''] fresh))) \<and>
   map csp_symbol (CSP (fst (scan_with (screen_csp steady_market) (raising_bps steady_market)
      [''X'', ''Y'', ''Z''] fresh \<lparr>CSP = [], BPS = []\<rparr>))) = [''X'', ''Y'', ''Z''] \<and>
   map bps_symbol (BPS (fst (scan_with (screen_csp steady_market) (raising_bps steady_market)
      [''X'', ''Y'', ''Z''] fresh \<lparr>CSP = [], BPS = []\<rparr>))) = [''X'', ''Z''] \<and>
   map csp_symbol (CSP (fst (scan_with (raising_csp steady_market)
      (screen_bull_put_spread steady_market)
      [''X'', ''Y'', ''Z''] fresh \<lparr>CSP = [], BPS = []\<rparr>))) = [''X'', ''Z'']"
proof -
  let ?r0 = "\<lparr>CSP = [], BPS = []\<rparr>"
  have only: "before = [''X'']" if "[''X'', ''Y'', ''Z''] = before @ ''Y'' # after"
    for before after :: "string list"
    using that by (auto simp: Cons_eq_append_conv)
  have h1: "\<forall>before after. [''X'', ''Y'', ''Z''] = before @ ''Y'' # after \<longrightarrow>
              fetch_fails late_market (snd (scan late_market before fresh ?r0)) ''Y''"
    using only late_scan by blast
  have h2: "\<forall>before after. [''X'', ''Y'', ''Z''] = before @ ''Y'' # after \<longrightarrow>
              fetch_fails late_market
                (snd (screen_csp late_market (snd (scan late_market before fresh ?r0)) ''Y'')) ''Y''"
    using only late_scan by blast
  note T = isolation[of "''Y''" late_market "[''X'', ''Y'', ''Z'']" fresh]
  from T h1 have c: "\<forall>c\<in>set (CSP (fst (screen_all_stocks late_market [''X'', ''Y'', ''Z''] fresh))).
                       csp_symbol c \<noteq> ''Y''" by blast
  from T h2 have b: "\<forall>c\<in>set (BPS (fst (screen_all_stocks late_market [''X'', ''Y'', ''Z''] fresh))).
                       bps_symbol c \<noteq> ''Y''" by blast
  have f: "filter (\<lambda>s. s \<noteq> ''Y'') [''X'', ''Y'', ''Z'', ''Y''] = [''X'', ''Z'']" by simp
  from isolation[of "''Y''" late_market "[''X'', ''Y'', ''Z'', ''Y'']" fresh]
  have o: "filter (\<lambda>c. csp_symbol c \<noteq> ''Y'')
     (CSP (fst (screen_all_stocks late_market [''X'', ''Y'', ''Z'', ''Y''] fresh))) =
     CSP (fst (screen_all_stocks late_market [''X'', ''Z''] fresh))"
    unfolding f by blast
  have only': "before = []" if "[''X''] = before @ ''X'' # after"
    for before after :: "string list"
    using that by (auto simp: Cons_eq_append_conv)
  have h3: "\<forall>before after. [''X''] = before @ ''X'' # after \<longrightarrow>
              fetch_fails flaky_market
                (snd (screen_csp flaky_market (snd (scan flaky_market before fresh ?r0)) ''X'')) ''X''"
  proof (intro allI impI)
    fix before after :: "string list"
    assume "[''X''] = before @ ''X'' # after"
    then have "before = []" by (rule only')
    with flaky_scan show "fetch_fails flaky_market
        (snd (screen_csp flaky_market (snd (scan flaky_market before fresh ?r0)) ''X'')) ''X''"
      by simp
  qed
  from isolation[of "''X''" flaky_market "[''X'']" fresh] h3
  have fb: "\<forall>c\<in>set (BPS (fst (screen_all_stocks flaky_market [''X''] fresh))).
              bps_symbol c \<noteq> ''X''" by blast
  from c b o fb late_scan flaky_scan raising_scans show ?thesis
    by (simp add: list_all_iff)
qed

text \<open>
  C4 as stated fails: when the price request of the put screener is answered and the
  price request of the spread screener fails, the symbol has had a failed fetch and still
  contributes its put to the result.
\<close>

theorem partial_failure_counterexample:
  "history flaky_market ''X'' 1 = Raises \<and>
   fst (get_current_price flaky_market (snd (screen_csp flaky_market fresh ''X'')) ''X'') = None \<and>
   fst (screen_bull_put_spread flaky_market (snd (screen_csp flaky_market fresh ''X'')) ''X'') = Inr [] \<and>
   map (\<lambda>c. (csp_symbol c, csp_strike c))
     (CSP (fst (screen_all_stocks flaky_market [''X''] fresh))) = [(''X'', 92)] \<and>
   BPS (fst (screen_all_stocks flaky_market [''X''] fresh)) = []"
  by code_simp

text \<open>
  C5. Every candidate of a scan, CSP or BPS, has a return on risk of at least
  MIN\_RETURN\_ON\_RISK, the return on risk being premium over strike (CSP) or net credit
  over width (BPS), in percent.
\<close>

theorem return_threshold:
  "(\<forall>c\<in>set (CSP (fst (screen_all_stocks m tickers st))).
      csp_return_on_risk c = csp_premium c / csp_strike c * 100 \<and>
      MIN_RETURN_ON_RISK \<le> csp_return_on_risk c) \<and>
   (\<forall>c\<in>set (BPS (fst (screen_all_stocks m tickers st))).
      bps_return_on_risk c = bps_credit c / bps_spread_width c * 100 \<and>
      MIN_RETURN_ON_RISK \<le> bps_return_on_risk c)"
proof (rule conjI; rule ballI)
  fix c assume "c \<in> set (CSP (fst (screen_all_stocks m tickers st)))"
  then obtain s st0 cs st1 where
    s: "screen_csp m st0 s = (Inr cs, st1)" "c \<in> set cs"
    using screen_all_stocks_CSP_member by blast
  from screen_csp_member[OF s] obtain row zs where
    r: "csp_row s (csp_current_price c) row = Inr zs" "c \<in> set zs" by blast
  from csp_row_member[OF r] show
    "csp_return_on_risk c = csp_premium c / csp_strike c * 100 \<and>
      MIN_RETURN_ON_RISK \<le> csp_return_on_risk c" by blast
next
  fix c assume "c \<in> set (BPS (fst (screen_all_stocks m tickers st)))"
  then obtain s st0 cs st1 where
    s: "screen_bull_put_spread m st0 s = (Inr cs, st1)" "c \<in> set cs"
    using screen_all_stocks_BPS_member by blast
  from screen_bull_put_spread_member[OF s] obtain sr l zs where
    r: "bps_pair s (bps_current_price c) sr l = Inr zs" "c \<in> set zs" by blast
  from bps_pair_member[OF r] show
    "bps_return_on_risk c = bps_credit c / bps_spread_width c * 100 \<and>
      MIN_RETURN_ON_RISK \<le> bps_return_on_risk c" by simp
qed

theorem return_threshold_witness:
  "map csp_return_on_risk (CSP (fst (screen_all_stocks steady_market [''X''] fresh))) = [20] \<and>
   map bps_return_on_risk (BPS (fst (screen_all_stocks steady_market [''X''] fresh))) = [125/4] \<and>
   list_all (\<lambda>c. MIN_RETURN_ON_RISK \<le> csp_return_on_risk c)
     (CSP (fst (screen_all_stocks steady_market [''X''] fresh))) \<and>
   list_all (\<lambda>c. MIN_RETURN_ON_RISK \<le> bps_return_on_risk c)
     (BPS (fst (screen_all_stocks steady_market [''X''] fresh)))"
  using return_threshold [of steady_market "[''X'']" fresh]
  unfolding steady_scan by simp

text \<open>
  C6. Both result lists of a scan are non-increasing in the annualized return, and the
  sort is stable: the candidates of any one annualized return are in the order of their
  arrival, which is the order of the tickers and, for one ticker, the order the screener
  yielded them in.
\<close>

theorem ranking:
  "sorted_wrt (\<lambda>a b. csp_annualized_return b \<le> csp_annualized_return a)
     (CSP (fst (screen_all_stocks m tickers st))) \<and>
   sorted_wrt (\<lambda>a b. bps_annualized_return b \<le> bps_annualized_return a)
     (BPS (fst (screen_all_stocks m tickers st))) \<and>
   (\<forall>k. filter (\<lambda>c. csp_annualized_return c = k) (CSP (fst (screen_all_stocks m tickers st))) =
        filter (\<lambda>c. csp_annualized_return c = k)
          (CSP (fst (scan m tickers st \<lparr>CSP = [], BPS = []\<rparr>)))) \<and>
   (\<forall>k. filter (\<lambda>c. bps_annualized_return c = k) (BPS (fst (screen_all_stocks m tickers st))) =
        filter (\<lambda>c. bps_annualized_return c = k)
          (BPS (fst (scan m tickers st \<lparr>CSP = [], BPS = []\<rparr>)))) \<and>
   (\<exists>cs bs.
      fst (screen_csp m (snd (scan m ts st res)) s) = Inr cs \<and>
      fst (screen_bull_put_spread m (snd (screen_csp m (snd (scan m ts st res)) s)) s) = Inr bs \<and>
      CSP (fst (scan m (ts @ [s]) st res)) = CSP (fst (scan m ts st res)) @ cs \<and>
      BPS (fst (scan m (ts @ [s]) st res)) = BPS (fst (scan m ts st res)) @ bs)"
  by (simp only: screen_all_stocks_fst results.simps sort_descending_sorted
                 sort_descending_stable scan_snoc simp_thms)

theorem ranking_witness:
  "map (\<lambda>c. (csp_symbol c, csp_annualized_return c))
     (CSP (fst (scan ranked_market [''X'', ''Y'', ''Z''] fresh \<lparr>CSP = [], BPS = []\<rparr>))) =
     [(''X'', 1460), (''Y'', 7300), (''Z'', 7300)] \<and>
   map (\<lambda>c. (csp_symbol c, csp_annualized_return c))
     (CSP (fst (screen_all_stocks ranked_market [''X'', ''Y'', ''Z''] fresh))) =
     [(''Y'', 7300), (''Z'', 7300), (''X'', 1460)] \<and>
   sorted_wrt (\<lambda>a b. csp_annualized_return b \<le> csp_annualized_return a)
     (CSP (fst (screen_all_stocks ranked_market [''X'', ''Y'', ''Z''] fresh)))"
  using ranking [of ranked_market "[''X'', ''Y'', ''Z'']" fresh] ranked_scan by blast

text \<open>
  C7, as amended. Scenario C in doubles: for a spot of 100, a short row of strike 95,
  bid 2.0, ask 2.2 and a long row of strike 90.2, bid 0.5, ask 0.7, the matcher yields
  exactly one spread, of net credit 1.5, width 4.799999999999997, maximal risk
  329.9999999999997 and return on risk 31.250000000000018: the 4.8, 330 and 31.25 of the
  scenario within the rounding of the doubles. In exact arithmetic on the decimal
  figures the values are 1.5, 4.8, 330 and 31.25.
\<close>

theorem scenario_c_in_doubles:
  "map_sum id (map (\<lambda>c. (bps_short_strike c, bps_long_strike c, bps_credit c, bps_spread_width c,
                           bps_max_risk c, bps_return_on_risk c)))
     (bps_short_row_rounded binary64 ''X'' 100
        (map (in_five_days \<circ> as_double) [leg_short, leg_long])
        (in_five_days (as_double leg_short))) =
     Inr [(95, binary64 (451/5), 3/2, 337769972052787 / 70368744177664,
           5805421394657275 / 17592186044416, 8796093022208005 / 281474976710656)] \<and>
   bps_short_row_rounded binary64 ''X'' 100
        (map (in_five_days \<circ> as_double) [leg_short, leg_long])
        (in_five_days (as_double leg_long)) = Inr [] \<and>
   \<bar>337769972052787 / 70368744177664 - 24/5\<bar> < (1 / 10 ^ 14 :: rat) \<and>
   \<bar>5805421394657275 / 17592186044416 - 330\<bar> < (1 / 10 ^ 12 :: rat) \<and>
   \<bar>8796093022208005 / 281474976710656 - 125/4\<bar> < (1 / 10 ^ 13 :: rat) \<and>
   MIN_RETURN_ON_RISK \<le> 8796093022208005 / 281474976710656 \<and>
   map_sum id (map (\<lambda>c. (bps_short_strike c, bps_long_strike c, bps_credit c, bps_spread_width c,
                           bps_max_risk c, bps_return_on_risk c)))
     (bps_short_row_rounded (\<lambda>x. x) ''X'' 100 (map in_five_days [leg_short, leg_long])
        (in_five_days leg_short)) = Inr [(95, 451/5, 3/2, 24/5, 330, 125/4)] \<and>
   bps_short_row_rounded (\<lambda>x. x) symbol current_price expiry_chain short_row =
     bps_short_row symbol current_price expiry_chain short_row"
proof -
  have "map_sum id (map (\<lambda>c. (bps_short_strike c, bps_long_strike c, bps_credit c, bps_spread_width c,
                           bps_max_risk c, bps_return_on_risk c)))
     (bps_short_row_rounded binary64 ''X'' 100
        (map (in_five_days \<circ> as_double) [leg_short, leg_long])
        (in_five_days (as_double leg_short))) =
     Inr [(95, binary64 (451/5), 3/2, 337769972052787 / 70368744177664,
           5805421394657275 / 17592186044416, 8796093022208005 / 281474976710656)]"
    by code_simp
  moreover have "bps_short_row_rounded binary64 ''X'' 100
        (map (in_five_days \<circ> as_double) [leg_short, leg_long])
        (in_five_days (as_double leg_long)) = Inr []"
    by code_simp
  moreover have "\<bar>337769972052787 / 70368744177664 - 24/5\<bar> < (1 / 10 ^ 14 :: rat)"
    "\<bar>5805421394657275 / 17592186044416 - 330\<bar> < (1 / 10 ^ 12 :: rat)"
    "\<bar>8796093022208005 / 281474976710656 - 125/4\<bar> < (1 / 10 ^ 13 :: rat)"
    "MIN_RETURN_ON_RISK \<le> 8796093022208005 / 281474976710656"
    by (simp_all add: MIN_RETURN_ON_RISK_def)
  moreover have "map_sum id (map (\<lambda>c. (bps_short_strike c, bps_long_strike c, bps_credit c,
                           bps_spread_width c, bps_max_risk c, bps_return_on_risk c)))
     (bps_short_row_rounded (\<lambda>x. x) ''X'' 100 (map in_five_days [leg_short, leg_long])
        (in_five_days leg_short)) = Inr [(95, 451/5, 3/2, 24/5, 330, 125/4)]"
    by code_simp
  ultimately show ?thesis using exact_short_row by blast
qed

text \<open>
  C7 as stated fails: on doubles the width, the maximal risk and the return on risk of
  the spread are not 4.8, 330 and 31.25.
\<close>

theorem scenario_c_counterexample:
  "map_sum id (map (\<lambda>c. (bps_credit c, bps_spread_width c, bps_max_risk c, bps_return_on_risk c)))
     (bps_short_row_rounded binary64 ''X'' 100
        (map (in_five_days \<circ> as_double) [leg_short, leg_long])
        (in_five_days (as_double leg_short))) =
     Inr [(3/2, 337769972052787 / 70368744177664, 5805421394657275 / 17592186044416,
           8796093022208005 / 281474976710656)] \<and>
   337769972052787 / 70368744177664 \<noteq> (24/5 :: rat) \<and>
   337769972052787 / 70368744177664 \<noteq> binary64 (24/5) \<and>
   5805421394657275 / 17592186044416 \<noteq> (330 :: rat) \<and>
   8796093022208005 / 281474976710656 \<noteq> (125/4 :: rat)"
  by code_simp

text \<open>
  C8. Every candidate of a scan has a dte within \<open>[MIN_DTE, MAX_DTE]\<close>, and its
  annualized return is its return on risk times 365 over that dte; every row of a fetched
  chain has its dte in the window before any metric is computed; and neither screener
  raises, so no division by a zero dte is ever evaluated.
\<close>

theorem dte_window:
  "(\<forall>c\<in>set (CSP (fst (screen_all_stocks m tickers st))).
      MIN_DTE \<le> csp_dte c \<and> csp_dte c \<le> MAX_DTE \<and>
      csp_annualized_return c = csp_return_on_risk c * (365 / of_int (csp_dte c))) \<and>
   (\<forall>c\<in>set (BPS (fst (screen_all_stocks m tickers st))).
      MIN_DTE \<le> bps_dte c \<and> bps_dte c \<le> MAX_DTE \<and>
      bps_annualized_return c = bps_return_on_risk c * (365 / of_int (bps_dte c))) \<and>
   (\<forall>chain st'. get_options_chain m st symbol = (Some chain, st') \<longrightarrow>
      (\<forall>r\<in>set chain. MIN_DTE \<le> dte r \<and> dte r \<le> MAX_DTE)) \<and>
   (\<exists>cs. fst (screen_csp m st symbol) = Inr cs) \<and>
   (\<exists>bs. fst (screen_bull_put_spread m st symbol) = Inr bs)"
proof (intro conjI)
  show "\<forall>c\<in>set (CSP (fst (screen_all_stocks m tickers st))).
      MIN_DTE \<le> csp_dte c \<and> csp_dte c \<le> MAX_DTE \<and>
      csp_annualized_return c = csp_return_on_risk c * (365 / of_int (csp_dte c))"
  proof
    fix c assume "c \<in> set (CSP (fst (screen_all_stocks m tickers st)))"
    then obtain s st0 cs st1 where
      s: "screen_csp m st0 s = (Inr cs, st1)" "c \<in> set cs"
      using screen_all_stocks_CSP_member by blast
    from screen_csp_member[OF s] obtain row zs chain st2 st3 where
      ch: "get_options_chain m st2 s = (Some chain, st3)" "row \<in> set chain" and
      r: "csp_row s (csp_current_price c) row = Inr zs" "c \<in> set zs" by blast
    from csp_row_member[OF r] have
      "csp_dte c = dte row"
      "csp_annualized_return c = csp_return_on_risk c * (365 / of_int (dte row))" by blast+
    with get_options_chain_dte[OF ch] show
      "MIN_DTE \<le> csp_dte c \<and> csp_dte c \<le> MAX_DTE \<and>
       csp_annualized_return c = csp_return_on_risk c * (365 / of_int (csp_dte c))" by simp
  qed
  show "\<forall>c\<in>set (BPS (fst (screen_all_stocks m tickers st))).
      MIN_DTE \<le> bps_dte c \<and> bps_dte c \<le> MAX_DTE \<and>
      bps_annualized_return c = bps_return_on_risk c * (365 / of_int (bps_dte c))"
  proof
    fix c assume "c \<in> set (BPS (fst (screen_all_stocks m tickers st)))"
    then obtain s st0 cs st1 where
      s: "screen_bull_put_spread m st0 s = (Inr cs, st1)" "c \<in> set cs"
      using screen_all_stocks_BPS_member by blast
    from screen_bull_put_spread_member[OF s] obtain sr l zs chain st2 st3 where
      ch: "get_options_chain m st2 s = (Some chain, st3)" "sr \<in> set chain" and
      r: "bps_pair s (bps_current_price c) sr l = Inr zs" "c \<in> set zs" by blast
    from bps_pair_member[OF r] have
      "bps_dte c = dte sr"
      "bps_annualized_return c = bps_return_on_risk c * (365 / of_int (dte sr))" by blast+
    with get_options_chain_dte[OF ch] show
      "MIN_DTE \<le> bps_dte c \<and> bps_dte c \<le> MAX_DTE \<and>
       bps_annualized_return c = bps_return_on_risk c * (365 / of_int (bps_dte c))" by simp
  qed
  show "\<forall>chain st'. get_options_chain m st symbol = (Some chain, st') \<longrightarrow>
      (\<forall>r\<in>set chain. MIN_DTE \<le> dte r \<and> dte r \<le> MAX_DTE)"
    using get_options_chain_dte by blast
  show "\<exists>cs. fst (screen_csp m st symbol) = Inr cs" by (rule screen_csp_total)
  show "\<exists>bs. fst (screen_bull_put_spread m st symbol) = Inr bs"
    by (rule screen_bull_put_spread_total)
qed

theorem dte_window_witness:
  "map csp_dte (CSP (fst (screen_all_stocks steady_market [''X''] fresh))) = [5] \<and>
   map bps_dte (BPS (fst (screen_all_stocks steady_market [''X''] fresh))) = [5] \<and>
   list_all (\<lambda>c. MIN_DTE \<le> csp_dte c \<and> csp_dte c \<le> MAX_DTE)
     (CSP (fst (screen_all_stocks steady_market [''X''] fresh))) \<and>
   list_all (\<lambda>c. MIN_DTE \<le> bps_dte c \<and> bps_dte c \<le> MAX_DTE)
     (BPS (fst (screen_all_stocks steady_market [''X''] fresh))) \<and>
   list_all (\<lambda>r. MIN_DTE \<le> dte r \<and> dte r \<le> MAX_DTE)
     (map in_five_days [leg_b, leg_short, leg_long])"
proof -
  have "get_options_chain steady_market fresh ''X'' =
          (Some (map in_five_days [leg_b, leg_short, leg_long]),
           snd (get_options_chain steady_market fresh ''X''))"
    by (simp add: prod_eq_iff steady_chain)
  with dte_window [of steady_market "[''X'']" fresh "''X''"]
  have "\<forall>r\<in>set (map in_five_days [leg_b, leg_short, leg_long]).
          MIN_DTE \<le> dte r \<and> dte r \<le> MAX_DTE" by blast
  with dte_window [of steady_market "[''X'']" fresh "''X''"]
  show ?thesis unfolding steady_scan by simp
qed

text \<open>
  C9, as amended. Each screener requests the spot price of its symbol once, so a scan
  requests it twice for every occurrence of the symbol among the tickers: once for the
  puts and once for the spreads.
\<close>

theorem quote_requests:
  "history_calls (snd (screen_csp m st symbol)) symbol = Suc (history_calls st symbol) \<and>
   history_calls (snd (screen_bull_put_spread m st symbol)) symbol =
     Suc (history_calls st symbol) \<and>
   history_calls (snd (screen_all_stocks m tickers st)) symbol =
     history_calls st symbol + 2 * count_list tickers symbol"
  by (simp add: screen_csp_history_calls screen_bull_put_spread_history_calls
                screen_all_stocks_snd scan_history_calls)

theorem quote_requests_witness:
  "history_calls (snd (screen_all_stocks steady_market [''X'', ''Y''] fresh)) ''X'' =
     history_calls fresh ''X'' + 2 * count_list [''X'', ''Y''] ''X'' \<and>
   history_calls (snd (screen_all_stocks steady_market [''X'', ''Y''] fresh)) ''X'' = 2"
  using quote_requests [of steady_market fresh "''X''" "[''X'', ''Y'']"]
  by (simp add: fresh_def)

text \<open>
  C9 as stated fails: in a scan of the single ticker X the price of X is requested twice,
  and when the price moves between the two requests the put and the spread of X carry
  different spots.
\<close>

theorem single_quote_counterexample:
  "history_calls fresh ''X'' = 0 \<and>
   history_calls (snd (screen_all_stocks drifting_market [''X''] fresh)) ''X'' = 2 \<and>
   map (\<lambda>c. (csp_symbol c, csp_current_price c))
     (CSP (fst (screen_all_stocks drifting_market [''X''] fresh))) = [(''X'', 100)] \<and>
   map (\<lambda>c. (bps_symbol c, bps_current_price c))
     (BPS (fst (screen_all_stocks drifting_market [''X''] fresh))) = [(''X'', 101)]"
  by code_simp

text \<open>
  C10. In the matcher, a pair whose width is at most its net credit (a width of zero
  included) is rejected by the guard before the return on risk is computed; a pair the
  guard lets through has a positive width, so the division of the net credit by the
  width is defined; with a nonzero spot and dte the pair raises nothing, and the spread
  screener never raises.
\<close>

theorem width_division_guarded:
  "(actual_width_of short_row long_row \<le> net_credit_of short_row long_row \<longrightarrow>
      bps_pair symbol current_price short_row long_row = Inr []) \<and>
   (\<not> (max_risk_of short_row long_row \<le> 0 \<or> net_credit_of short_row long_row \<le> 0) \<longrightarrow>
      0 < actual_width_of short_row long_row \<and>
      truediv (net_credit_of short_row long_row) (actual_width_of short_row long_row) =
        Inr (net_credit_of short_row long_row / actual_width_of short_row long_row)) \<and>
   (current_price \<noteq> 0 \<and> dte short_row \<noteq> 0 \<longrightarrow>
      (\<exists>cs. bps_pair symbol current_price short_row long_row = Inr cs)) \<and>
   (\<exists>bs. fst (screen_bull_put_spread m st symbol) = Inr bs)"
proof (intro conjI impI)
  assume "actual_width_of short_row long_row \<le> net_credit_of short_row long_row"
  then have "max_risk_of short_row long_row \<le> 0"
    by (simp add: max_risk_of_def mult_le_0_iff)
  then show "bps_pair symbol current_price short_row long_row = Inr []"
    by (simp add: bps_pair_def Let_def)
next
  assume g: "\<not> (max_risk_of short_row long_row \<le> 0 \<or> net_credit_of short_row long_row \<le> 0)"
  then show w: "0 < actual_width_of short_row long_row" by (rule guard_width_positive)
  then show "truediv (net_credit_of short_row long_row) (actual_width_of short_row long_row) =
        Inr (net_credit_of short_row long_row / actual_width_of short_row long_row)"
    by (simp add: truediv_def)
next
  assume "current_price \<noteq> 0 \<and> dte short_row \<noteq> 0"
  then show "\<exists>cs. bps_pair symbol current_price short_row long_row = Inr cs"
    by (simp add: bps_pair_total)
next
  show "\<exists>bs. fst (screen_bull_put_spread m st symbol) = Inr bs"
    by (rule screen_bull_put_spread_total)
qed

theorem width_division_guarded_witness:
  "actual_width_of (in_five_days leg_short) (in_five_days leg_short) = 0 \<and>
   bps_pair ''X'' 100 (in_five_days leg_short) (in_five_days leg_short) = Inr [] \<and>
   0 < actual_width_of (in_five_days leg_short) (in_five_days leg_long) \<and>
   truediv (net_credit_of (in_five_days leg_short) (in_five_days leg_long))
     (actual_width_of (in_five_days leg_short) (in_five_days leg_long)) = Inr (5/16) \<and>
   (\<exists>cs. bps_pair ''X'' 100 (in_five_days leg_short) (in_five_days leg_long) = Inr cs)"
proof -
  let ?s = "in_five_days leg_short" and ?l = "in_five_days leg_long"
  have z: "actual_width_of ?s ?s = 0" by (simp add: actual_width_of_def)
  have n: "net_credit_of ?s ?s = 0" by (simp add: net_credit_of_def)
  have g: "\<not> (max_risk_of ?s ?l \<le> 0 \<or> net_credit_of ?s ?l \<le> 0)" by code_simp
  have q: "net_credit_of ?s ?l / actual_width_of ?s ?l = 5/16" by code_simp
  have d: "dte ?s \<noteq> 0" by (simp add: in_five_days_def tag_row_def)
  from width_division_guarded [of ?s ?s "''X''" 100] z n
  have "bps_pair ''X'' 100 ?s ?s = Inr []" by simp
  moreover from width_division_guarded [of ?s ?l "''X''" 100] g q d
  have "0 < actual_width_of ?s ?l"
    "truediv (net_credit_of ?s ?l) (actual_width_of ?s ?l) = Inr (5/16)"
    "\<exists>cs. bps_pair ''X'' 100 ?s ?l = Inr cs" by auto
  ultimately show ?thesis using z by blast
qed

end
